theory Spec2Isabelle
  imports Main "HOL-Library.Sublist" "HOL-Library.AList"
begin

section \<open>Python values, exceptions and effects\<close>

text \<open>
  The server (\<^verbatim>\<open>main.py\<close>) is embedded function by function. A Python \<^verbatim>\<open>str\<close> is a
  \<^typ>\<open>string\<close>, a dict with string keys is an association list in
  insertion order (item assignment is \<^const>\<open>AList.update\<close>), an HTTP status is an
  \<^typ>\<open>int\<close>.

  An exception is a value. Three classes matter to the handlers of the source:
  \<^verbatim>\<open>httpx.HTTPStatusError\<close> (it carries the response it was raised for),
  \<^verbatim>\<open>httpx.RequestError\<close> (every transport failure of httpx: DNS, refused
  connection, timeout, TLS) and any other subclass of \<^verbatim>\<open>Exception\<close>. The string is
  what \<^verbatim>\<open>str(e)\<close> gives.
\<close>

record response =
  status_code :: int
  resp_text :: string

datatype pyexc =
    HTTPStatusError response string
  | RequestError string
  | Exception string

text \<open>
  What an adapter returns, and so what a key of the response holds: a \<^verbatim>\<open>str\<close> or
  \<^verbatim>\<open>None\<close>. The text of a Gemini reply is a \<^verbatim>\<open>str\<close>; the \<^verbatim>\<open>content\<close> of the message of
  a chat completion is \<^verbatim>\<open>Optional[str]\<close>.
\<close>

datatype pyval = Str string | PyNone

fun str_exc :: "pyexc \<Rightarrow> string" where
  "str_exc (HTTPStatusError r m) = m"
| "str_exc (RequestError m) = m"
| "str_exc (Exception m) = m"

text \<open>
  What leaves the process is recorded as a trace of events: the GET of the fetcher and
  the one call each adapter makes to its backend, with the arguments passed.
\<close>

datatype event =
    HttpGet string
  | GenerateContent string
  | ChatCompletion string string

text \<open>
  The module's globals and the outside world. \<open>api_keys\<close> is the result of
  \<^verbatim>\<open>load_api_keys\<close> (\<^verbatim>\<open>None\<close> or a dict); \<open>gemini_model\<close> and \<open>openai_client\<close> are
  \<^verbatim>\<open>None\<close> when the provider is not configured, and otherwise answer a call with an
  exception or with the reply: \<^verbatim>\<open>response.text\<close> of the generative model,
  \<^verbatim>\<open>response.choices[0].message.content\<close> of the chat completion. \<open>client_get\<close> is \<^verbatim>\<open>client.get(url, headers=headers)\<close>
  of httpx, and \<open>status_error_message\<close> the message httpx gives the
  \<^verbatim>\<open>HTTPStatusError\<close> of a response.
\<close>

record world =
  api_keys :: "(string \<times> string) list option"
  gemini_model :: "(string \<Rightarrow> pyexc + string) option"
  openai_client :: "(string \<Rightarrow> string \<Rightarrow> pyexc + pyval) option"
  client_get :: "string \<Rightarrow> pyexc + response"
  status_error_message :: "response \<Rightarrow> string"

text \<open>\<^verbatim>\<open>str(n)\<close> of a Python int: decimal digits, with a minus sign when negative.\<close>

fun digits :: "nat \<Rightarrow> string" where
  "digits n =
     (if n < 10 then [''0123456789'' ! n]
      else digits (n div 10) @ [''0123456789'' ! (n mod 10)])"

declare digits.simps [simp del]

definition str_int :: "int \<Rightarrow> string" where
  "str_int i = (if i < 0 then CHR ''-'' # digits (nat (- i)) else digits (nat i))"

text \<open>
  The number a string of decimal digits denotes. It is not part of the program: it is
  the reading against which \<open>str_int\<close> is checked to write the number it is given.
\<close>

definition digit_value :: "char \<Rightarrow> nat" where
  "digit_value c =
     (case map_of (zip ''0123456789'' [0, 1, 2, 3, 4, 5, 6, 7, 8, 9]) c of
        Some d \<Rightarrow> d
      | None \<Rightarrow> 0)"

definition decimal_value :: "string \<Rightarrow> nat" where
  "decimal_value s = foldl (\<lambda>a c. 10 * a + digit_value c) 0 s"

text \<open>\<^verbatim>\<open>xs[i]\<close> raises \<^verbatim>\<open>IndexError\<close> out of range.\<close>

definition getitem :: "'a list \<Rightarrow> nat \<Rightarrow> pyexc + 'a" where
  "getitem xs i =
     (if i < length xs then Inr (xs ! i) else Inl (Exception ''list index out of range''))"

section \<open>The content fetcher\<close>

text \<open>
  \<^verbatim>\<open>response.raise_for_status()\<close> of httpx raises \<^verbatim>\<open>HTTPStatusError\<close> for every
  status outside 200..299.
\<close>

definition raise_for_status :: "world \<Rightarrow> response \<Rightarrow> pyexc + unit" where
  "raise_for_status w r =
     (if 200 \<le> status_code r \<and> status_code r \<le> 299 then Inr ()
      else Inl (HTTPStatusError r (status_error_message w r)))"

text \<open>The \<^verbatim>\<open>try\<close> block of \<^verbatim>\<open>fetch_website_content\<close>.\<close>

definition fetch_attempt :: "world \<Rightarrow> string \<Rightarrow> pyexc + string" where
  "fetch_attempt w url =
     (case client_get w url of
        Inl e \<Rightarrow> Inl e
      | Inr r \<Rightarrow>
          (case raise_for_status w r of
             Inl e \<Rightarrow> Inl e
           | Inr _ \<Rightarrow> Inr (resp_text r)))"

text \<open>
  Its two \<^verbatim>\<open>except\<close> clauses: each raises a new \<^verbatim>\<open>Exception\<close> with a message for the
  user. An exception of any other class is not caught here and propagates as it is.
\<close>

fun fetch_except :: "pyexc \<Rightarrow> pyexc" where
  "fetch_except (HTTPStatusError r m) =
     Exception (''Failed to fetch content (Status: '' @ str_int (status_code r)
                @ ''). Site may be down.'')"
| "fetch_except (RequestError m) =
     Exception ''Could not retrieve website content. The site might be offline or unreachable.''"
| "fetch_except (Exception m) = Exception m"

definition fetch_website_content :: "world \<Rightarrow> string \<Rightarrow> (pyexc + string) \<times> event list" where
  "fetch_website_content w url =
     ((case fetch_attempt w url of
         Inl e \<Rightarrow> Inl (fetch_except e)
       | Inr t \<Rightarrow> Inr t),
      [HttpGet url])"

section \<open>The provider adapters\<close>

text \<open>
  Each adapter returns at once when its client is \<^verbatim>\<open>None\<close>; otherwise it makes one
  call, and its \<^verbatim>\<open>except Exception\<close> turns whatever the call raised into a string.
  \<^verbatim>\<open>analyze_with_openai\<close> returns the content of the message as it is, with no test
  for \<^verbatim>\<open>None\<close>.
\<close>

definition full_prompt_of :: "string \<Rightarrow> string \<Rightarrow> string" where
  "full_prompt_of system_prompt user_prompt =
     system_prompt @ [CHR 0x0A, CHR 0x0A] @ ''---'' @ [CHR 0x0A, CHR 0x0A] @ user_prompt"

definition analyze_with_gemini ::
  "world \<Rightarrow> string \<Rightarrow> string \<Rightarrow> (pyexc + pyval) \<times> event list" where
  "analyze_with_gemini w user_prompt system_prompt =
     (case gemini_model w of
        None \<Rightarrow>
          (Inr (Str ''Error: Gemini model is not configured or API key is missing.''), [])
      | Some model \<Rightarrow>
          (let full_prompt = full_prompt_of system_prompt user_prompt
           in ((case model full_prompt of
                  Inr reply \<Rightarrow> Inr (Str reply)
                | Inl e \<Rightarrow> Inr (Str (''Error during Gemini analysis: '' @ str_exc e))),
               [GenerateContent full_prompt])))"

definition analyze_with_openai ::
  "world \<Rightarrow> string \<Rightarrow> string \<Rightarrow> (pyexc + pyval) \<times> event list" where
  "analyze_with_openai w user_prompt system_prompt =
     (case openai_client w of
        None \<Rightarrow>
          (Inr (Str ''Error: OpenAI client is not configured or API key is missing.''), [])
      | Some client \<Rightarrow>
          ((case client system_prompt user_prompt of
              Inr content \<Rightarrow> Inr content
            | Inl e \<Rightarrow> Inr (Str (''Error during OpenAI analysis: '' @ str_exc e))),
           [ChatCompletion system_prompt user_prompt]))"

section \<open>The fan-out: \<^verbatim>\<open>perform_analysis\<close>\<close>

text \<open>
  \<^verbatim>\<open>asyncio.gather(*tasks, return_exceptions=True)\<close>: every task runs to its end; the
  results come back in the order of the tasks, an exception a task raised as a value in
  its slot. The events of the tasks are recorded in the order the tasks were given.
\<close>

definition gather :: "((pyexc + 'a) \<times> event list) list \<Rightarrow> (pyexc + 'a) list \<times> event list" where
  "gather tasks = (map fst tasks, concat (map snd tasks))"

text \<open>The prompt built inside the \<^verbatim>\<open>try\<close> block, from the URL and the fetched text.\<close>

definition user_prompt_of :: "string \<Rightarrow> string \<Rightarrow> string" where
  "user_prompt_of url source_code =
     (let truncated_source_code = take 15000 source_code
      in ''URL: '' @ url @ [CHR 0x0A, CHR 0x0A] @ ''SOURCE CODE (first 15,000 characters):''
           @ [CHR 0x0A] @ truncated_source_code)"

text \<open>The tasks appended for a choice, in the order of the source.\<close>

definition tasks_of ::
  "world \<Rightarrow> string option \<Rightarrow> string \<Rightarrow> string \<Rightarrow> ((pyexc + pyval) \<times> event list) list" where
  "tasks_of w ai_choice user_prompt system_prompt =
     (if ai_choice \<in> set [Some ''gemini'', Some ''both'']
      then [analyze_with_gemini w user_prompt system_prompt] else [])
     @ (if ai_choice \<in> set [Some ''chatgpt'', Some ''both'']
        then [analyze_with_openai w user_prompt system_prompt] else [])"

text \<open>One slot of the results, as it is written into the response.\<close>

definition slot_text :: "pyexc + pyval \<Rightarrow> pyval" where
  "slot_text r = (case r of Inl e \<Rightarrow> Str (''Error: '' @ str_exc e) | Inr v \<Rightarrow> v)"

text \<open>
  The part under \<^verbatim>\<open># --- Format Response ---\<close>: \<open>response_data\<close> and \<open>result_index\<close>
  are threaded through the two \<^verbatim>\<open>if\<close> statements.
\<close>

definition format_gemini ::
  "string option \<Rightarrow> (pyexc + pyval) list \<Rightarrow> (string \<times> pyval) list \<times> nat
     \<Rightarrow> pyexc + ((string \<times> pyval) list \<times> nat)" where
  "format_gemini ai_choice results st =
     (case st of (response_data, result_index) \<Rightarrow>
        if ai_choice \<in> set [Some ''gemini'', Some ''both'']
        then (case getitem results result_index of
                Inl e \<Rightarrow> Inl e
              | Inr r \<Rightarrow>
                  Inr (AList.update ''gemini'' (slot_text r) response_data, result_index + 1))
        else Inr (response_data, result_index))"

definition format_chatgpt ::
  "string option \<Rightarrow> (pyexc + pyval) list \<Rightarrow> (string \<times> pyval) list \<times> nat
     \<Rightarrow> pyexc + (string \<times> pyval) list" where
  "format_chatgpt ai_choice results st =
     (case st of (response_data, result_index) \<Rightarrow>
        if ai_choice \<in> set [Some ''chatgpt'', Some ''both'']
        then (case getitem results result_index of
                Inl e \<Rightarrow> Inl e
              | Inr r \<Rightarrow> Inr (AList.update ''chatgpt'' (slot_text r) response_data))
        else Inr response_data)"

definition format_response ::
  "string option \<Rightarrow> (pyexc + pyval) list \<Rightarrow> pyexc + ((string \<times> pyval) list \<times> int)" where
  "format_response ai_choice results =
     (case format_gemini ai_choice results ([], 0) of
        Inl e \<Rightarrow> Inl e
      | Inr st \<Rightarrow>
          (case format_chatgpt ai_choice results st of
             Inl e \<Rightarrow> Inl e
           | Inr response_data \<Rightarrow> Inr (response_data, 200)))"

definition perform_analysis ::
  "world \<Rightarrow> string \<Rightarrow> string option \<Rightarrow> string
     \<Rightarrow> (pyexc + ((string \<times> pyval) list \<times> int)) \<times> event list" where
  "perform_analysis w url ai_choice system_prompt =
     (case fetch_website_content w url of
        (Inl e, ev) \<Rightarrow> (Inr ([(''error'', Str (str_exc e))], 400), ev)
      | (Inr source_code, ev) \<Rightarrow>
          (case gather (tasks_of w ai_choice (user_prompt_of url source_code) system_prompt) of
             (results, ev') \<Rightarrow> (format_response ai_choice results, ev @ ev')))"

section \<open>The route \<^verbatim>\<open>/analyze\<close>\<close>

definition AI_SYSTEM_PROMPT :: string where
  "AI_SYSTEM_PROMPT =
     [CHR 0x0A]
     @ ''You are an expert cybersecurity analyst specializing in phishing detection.''
     @ [CHR 0x0A]
     @ ''Your task is to analyze a given URL and its HTML source code to determine if it is a phishing website or a safe website.''
     @ [CHR 0x0A]
     @ ''Provide a clear one-word verdict: '' @ [CHR 0x27] @ ''Safe'' @ [CHR 0x27]
     @ '' or '' @ [CHR 0x27] @ ''Phishing'' @ [CHR 0x27] @ ''.''
     @ [CHR 0x0A]
     @ ''Then, provide a concise, one-paragraph explanation for your reasoning.''
     @ [CHR 0x0A]
     @ ''Format your response as:''
     @ [CHR 0x0A]
     @ ''Verdict: [Safe/Phishing]''
     @ [CHR 0x0A]
     @ ''Reasoning: [Your one-paragraph explanation]''
     @ [CHR 0x0A]"

text \<open>
  The JSON body of a request, as the route reads it: the values under \<^verbatim>\<open>url\<close> and
  \<^verbatim>\<open>ai_choice\<close>, \<^verbatim>\<open>None\<close> for a key that is absent. \<^verbatim>\<open>request.get_json()\<close> gives the body
  or raises.
\<close>

record request_json =
  json_url :: "string option"
  json_ai_choice :: "string option"

text \<open>\<^verbatim>\<open>not api_keys or (not gemini_model and not openai_client)\<close>\<close>

definition not_configured :: "world \<Rightarrow> bool" where
  "not_configured w =
     ((case api_keys w of None \<Rightarrow> True | Some ks \<Rightarrow> ks = [])
      \<or> (Option.is_none (gemini_model w) \<and> Option.is_none (openai_client w)))"

definition analyze ::
  "world \<Rightarrow> pyexc + request_json \<Rightarrow> ((string \<times> pyval) list \<times> int) \<times> event list" where
  "analyze w get_json =
     (if not_configured w
      then (([(''error'', Str ''Server is not configured with at least one valid API key.'')], 500), [])
      else
        (case get_json of
           Inl e \<Rightarrow> (([(''error'', Str ''An internal server error occurred.'')], 500), [])
         | Inr data \<Rightarrow>
             (case json_url data of
                None \<Rightarrow> (([(''error'', Str ''URL is required.'')], 400), [])
              | Some url \<Rightarrow>
                  if url = [] then (([(''error'', Str ''URL is required.'')], 400), [])
                  else
                    (case perform_analysis w url (json_ai_choice data) AI_SYSTEM_PROMPT of
                       (Inl e, ev) \<Rightarrow>
                         (([(''error'', Str ''An internal server error occurred.'')], 500), ev)
                     | (Inr (response_data, code), ev) \<Rightarrow> ((response_data, code), ev)))))"

section \<open>The page's \<^verbatim>\<open>formatResult\<close>\<close>

text \<open>
  The script of the page is JavaScript; a string is modelled as a \<^typ>\<open>string\<close> whose
  characters are code units below 256. \<open>is_space\<close> is the class \<^verbatim>\<open>\s\<close> on these code
  units (tab, line feed, vertical tab, form feed, carriage return, space, no-break space),
  which is also what \<^verbatim>\<open>trim()\<close> removes.

  Under the flag \<^verbatim>\<open>i\<close> a pattern character that is an ASCII letter matches exactly
  its two ASCII cases, so comparing ASCII lower cases is what the regular expression does;
  on a captured verdict, which holds ASCII letters only, it is also
  \<^verbatim>\<open>toLowerCase()\<close>.
\<close>

definition is_space :: "char \<Rightarrow> bool" where
  "is_space c =
     (c \<in> set [CHR 0x09, CHR 0x0A, CHR 0x0B, CHR 0x0C, CHR 0x0D, CHR 0x20, CHR 0xA0])"

definition to_lower :: "char \<Rightarrow> char" where
  "to_lower c =
     (case map_of (zip ''ABCDEFGHIJKLMNOPQRSTUVWXYZ'' ''abcdefghijklmnopqrstuvwxyz'') c of
        Some d \<Rightarrow> d
      | None \<Rightarrow> c)"

definition trim :: "string \<Rightarrow> string" where
  "trim s = rev (dropWhile is_space (rev (dropWhile is_space s)))"

text \<open>\<open>starts_ci pat s\<close>: the literal \<open>pat\<close> matches at the start of \<open>s\<close>, ignoring case.\<close>

definition starts_ci :: "string \<Rightarrow> string \<Rightarrow> bool" where
  "starts_ci pat s =
     (length pat \<le> length s \<and> map to_lower (take (length pat) s) = map to_lower pat)"

text \<open>
  \<^verbatim>\<open>/Verdict:\s*(Safe|Phishing)/i\<close> tried at the start of \<open>s\<close>; the result is the
  capture group. \<^verbatim>\<open>\s*\<close> is greedy, and giving whitespace back cannot help, since the
  next character would have to start \<^verbatim>\<open>Safe\<close> or \<^verbatim>\<open>Phishing\<close>.
\<close>

definition verdict_at :: "string \<Rightarrow> string option" where
  "verdict_at s =
     (if starts_ci ''Verdict:'' s
      then (let rest = dropWhile is_space (drop 8 s)
            in if starts_ci ''Safe'' rest then Some (take 4 rest)
               else if starts_ci ''Phishing'' rest then Some (take 8 rest)
               else None)
      else None)"

text \<open>\<^verbatim>\<open>/Reasoning:\s*([\s\S]*)/i\<close> tried at the start of \<open>s\<close>: the capture is the rest.\<close>

definition reasoning_at :: "string \<Rightarrow> string option" where
  "reasoning_at s =
     (if starts_ci ''Reasoning:'' s then Some (dropWhile is_space (drop 10 s)) else None)"

text \<open>
  \<^verbatim>\<open>text.match(re)\<close> without the flag \<^verbatim>\<open>g\<close>: the expression is tried at every
  start, from the left, the end of the text included; the leftmost start that matches
  gives the result. \<open>at\<close> is the expression tried at the start of a string.
\<close>

fun first_match :: "(string \<Rightarrow> 'a option) \<Rightarrow> string \<Rightarrow> 'a option" where
  "first_match at [] = at []"
| "first_match at (c # cs) =
     (case at (c # cs) of Some r \<Rightarrow> Some r | None \<Rightarrow> first_match at cs)"

text \<open>
  The two shapes of the HTML returned: the red paragraph holding the text, and the
  block built from \<open>verdictClass\<close>, \<open>verdict\<close> and \<open>reasoning\<close>.
\<close>

datatype rendered =
    ErrorParagraph string
  | VerdictBlock string string string

definition verdict_class :: "string \<Rightarrow> string" where
  "verdict_class verdict =
     (let verdictClass = [];
          verdictClass = (if map to_lower verdict = ''safe'' then ''verdict-safe''
                          else verdictClass);
          verdictClass = (if map to_lower verdict = ''phishing'' then ''verdict-phishing''
                          else verdictClass)
      in verdictClass)"

definition formatResult :: "string \<Rightarrow> rendered" where
  "formatResult text =
     (if prefix ''Error:'' text then ErrorParagraph text
      else
        (let verdictMatch = first_match verdict_at text;
             reasoningMatch = first_match reasoning_at text;
             (verdict, verdictClass) =
               (case verdictMatch of
                  None \<Rightarrow> (''Unknown'', [])
                | Some v \<Rightarrow> (v, verdict_class v));
             reasoning = (case reasoningMatch of None \<Rightarrow> text | Some r \<Rightarrow> trim r)
         in VerdictBlock verdictClass verdict reasoning))"

text \<open>
  The words of the specification about a text. \<open>verdict_after_marker text pre v\<close>: after
  \<open>pre\<close>, the text goes on with \<^verbatim>\<open>Verdict:\<close> in some casing, then whitespace or none,
  then \<open>v\<close>, which is \<^verbatim>\<open>Safe\<close> or \<^verbatim>\<open>Phishing\<close> in some casing.
  \<open>reasoning_after_marker text pre rest\<close>: after \<open>pre\<close>, the text goes on with
  \<^verbatim>\<open>Reasoning:\<close> in some casing, and \<open>rest\<close> is what follows.
\<close>

definition names_verdict :: "string \<Rightarrow> bool" where
  "names_verdict v = (map to_lower v = ''safe'' \<or> map to_lower v = ''phishing'')"

definition verdict_after_marker :: "string \<Rightarrow> string \<Rightarrow> string \<Rightarrow> bool" where
  "verdict_after_marker text pre v =
     (\<exists>m ws post. text = pre @ m @ ws @ v @ post \<and> map to_lower m = ''verdict:''
        \<and> list_all is_space ws \<and> names_verdict v)"

definition reasoning_after_marker :: "string \<Rightarrow> string \<Rightarrow> string \<Rightarrow> bool" where
  "reasoning_after_marker text pre rest =
     (\<exists>m. text = pre @ m @ rest \<and> map to_lower m = ''reasoning:'')"

section \<open>A world to run the definitions in\<close>

text \<open>
  The scenario of the specification: both providers configured, the page at
  \<^verbatim>\<open>http://good.example\<close> is served with status 200, the first provider answers
  Safe and the second Phishing. The theorems below are run in this world and in
  variations of it.
\<close>

definition example_url :: string where
  "example_url = ''http://good.example''"

definition gemini_reply :: string where
  "gemini_reply = ''Verdict: Safe'' @ [CHR 0x0A] @ ''Reasoning: Looks fine.''"

definition chatgpt_reply :: string where
  "chatgpt_reply = ''Verdict: Phishing'' @ [CHR 0x0A] @ ''Reasoning: Suspicious form.''"

definition example_world :: world where
  "example_world =
     \<lparr>api_keys = Some [(''GEMINI_API'', ''key-1''), (''CHATGPT_API'', ''key-2'')],
      gemini_model = Some (\<lambda>full_prompt. Inr gemini_reply),
      openai_client = Some (\<lambda>system_prompt user_prompt. Inr (Str chatgpt_reply)),
      client_get = (\<lambda>url. Inr \<lparr>status_code = 200, resp_text = ''<html>ok</html>''\<rparr>),
      status_error_message = (\<lambda>r. ''bad status'')\<rparr>"

text \<open>The same world with the page missing, and with the site unreachable.\<close>

definition missing_page_world :: world where
  "missing_page_world =
     example_world\<lparr>client_get := (\<lambda>url. Inr \<lparr>status_code = 404, resp_text = ''Not Found''\<rparr>)\<rparr>"

definition offline_world :: world where
  "offline_world = example_world\<lparr>client_get := (\<lambda>url. Inl (RequestError ''timed out''))\<rparr>"

text \<open>The same world with one provider failing: its call raises.\<close>

definition gemini_down_world :: world where
  "gemini_down_world =
     example_world\<lparr>gemini_model := Some (\<lambda>full_prompt. Inl (Exception ''quota exceeded''))\<rparr>"

definition openai_down_world :: world where
  "openai_down_world =
     example_world\<lparr>openai_client :=
        Some (\<lambda>system_prompt user_prompt. Inl (Exception ''connection reset''))\<rparr>"

text \<open>The same world with one provider not configured.\<close>

definition gemini_off_world :: world where
  "gemini_off_world = example_world\<lparr>gemini_model := None\<rparr>"

definition openai_off_world :: world where
  "openai_off_world = example_world\<lparr>openai_client := None\<rparr>"

text \<open>The same world with a chat completion whose message has no content.\<close>

definition null_content_world :: world where
  "null_content_world =
     example_world\<lparr>openai_client := Some (\<lambda>system_prompt user_prompt. Inr PyNone)\<rparr>"

text \<open>The same world with both providers failing, and with no provider configured.\<close>

definition all_down_world :: world where
  "all_down_world =
     example_world\<lparr>gemini_model := Some (\<lambda>full_prompt. Inl (Exception ''quota exceeded'')),
                   openai_client :=
                     Some (\<lambda>system_prompt user_prompt. Inl (Exception ''connection reset''))\<rparr>"

definition unconfigured_world :: world where
  "unconfigured_world =
     example_world\<lparr>api_keys := None, gemini_model := None, openai_client := None\<rparr>"

text \<open>The same world serving a page of 15,001 characters.\<close>

definition long_page_world :: world where
  "long_page_world =
     example_world\<lparr>client_get :=
        (\<lambda>url. Inr \<lparr>status_code = 200, resp_text = replicate 15001 (CHR ''a'')\<rparr>)\<rparr>"

text \<open>
  Three replies of a provider: the one of the specification, one with the markers in
  other casings inside a sentence, and one with no marker.
\<close>

definition spec_reply :: string where
  "spec_reply = ''Verdict: Safe'' @ [CHR 0x0A] @ ''Reasoning: X''"

definition loose_reply :: string where
  "loose_reply = ''  so the VERDICT:'' @ [CHR 0x09] @ ''phishING, reasoning:  bad form  ''"

definition vague_reply :: string where
  "vague_reply = ''I cannot tell.''"

section \<open>Basic facts\<close>

lemma in_gemini_choice [simp]:
  "(ai_choice \<in> set [Some ''gemini'', Some ''both''])
     = (ai_choice = Some ''gemini'' \<or> ai_choice = Some ''both'')"
  by auto

lemma in_chatgpt_choice [simp]:
  "(ai_choice \<in> set [Some ''chatgpt'', Some ''both''])
     = (ai_choice = Some ''chatgpt'' \<or> ai_choice = Some ''both'')"
  by auto

lemma fetch_website_content_events: "snd (fetch_website_content w url) = [HttpGet url]"
  by (simp add: fetch_website_content_def)

lemma analyze_with_gemini_returns:
  "\<exists>s. fst (analyze_with_gemini w user_prompt system_prompt) = Inr (Str s)"
  by (simp add: analyze_with_gemini_def Let_def split: option.split sum.split)

lemma analyze_with_openai_returns:
  "\<exists>v. fst (analyze_with_openai w user_prompt system_prompt) = Inr v"
  by (simp add: analyze_with_openai_def split: option.split sum.split)

text \<open>The formatting step on the result lists the four kinds of choice produce.\<close>

lemma format_response_both:
  "format_response (Some ''both'') [g, c]
     = Inr ([(''gemini'', slot_text g), (''chatgpt'', slot_text c)], 200)"
  by (simp add: format_response_def format_gemini_def format_chatgpt_def getitem_def)

lemma format_response_gemini:
  "format_response (Some ''gemini'') [g] = Inr ([(''gemini'', slot_text g)], 200)"
  by (simp add: format_response_def format_gemini_def format_chatgpt_def getitem_def)

lemma format_response_chatgpt:
  "format_response (Some ''chatgpt'') [c] = Inr ([(''chatgpt'', slot_text c)], 200)"
  by (simp add: format_response_def format_gemini_def format_chatgpt_def getitem_def)

lemma format_response_none:
  "ai_choice \<noteq> Some ''gemini'' \<Longrightarrow> ai_choice \<noteq> Some ''chatgpt'' \<Longrightarrow> ai_choice \<noteq> Some ''both''
   \<Longrightarrow> format_response ai_choice [] = Inr ([], 200)"
  by (simp add: format_response_def format_gemini_def format_chatgpt_def getitem_def)

text \<open>\<^verbatim>\<open>perform_analysis\<close> when the fetch raised, and when it returned.\<close>

lemma perform_analysis_fetch_failed:
  assumes "fst (fetch_website_content w url) = Inl e"
  shows "perform_analysis w url ai_choice system_prompt
           = (Inr ([(''error'', Str (str_exc e))], 400), [HttpGet url])"
proof -
  have "fetch_website_content w url = (Inl e, [HttpGet url])"
    using assms fetch_website_content_events [of w url] by (simp add: prod_eq_iff)
  then show ?thesis by (simp add: perform_analysis_def)
qed

lemma perform_analysis_fetched:
  assumes "fst (fetch_website_content w url) = Inr source_code"
  shows "perform_analysis w url ai_choice system_prompt =
     (Inr ((if ai_choice = Some ''gemini'' \<or> ai_choice = Some ''both''
            then [(''gemini'', slot_text (fst (analyze_with_gemini w
                     (user_prompt_of url source_code) system_prompt)))]
            else [])
           @ (if ai_choice = Some ''chatgpt'' \<or> ai_choice = Some ''both''
              then [(''chatgpt'', slot_text (fst (analyze_with_openai w
                       (user_prompt_of url source_code) system_prompt)))]
              else []), 200),
      [HttpGet url]
      @ (if ai_choice = Some ''gemini'' \<or> ai_choice = Some ''both''
         then snd (analyze_with_gemini w (user_prompt_of url source_code) system_prompt)
         else [])
      @ (if ai_choice = Some ''chatgpt'' \<or> ai_choice = Some ''both''
         then snd (analyze_with_openai w (user_prompt_of url source_code) system_prompt)
         else []))"
proof -
  have f: "fetch_website_content w url = (Inr source_code, [HttpGet url])"
    using assms fetch_website_content_events [of w url] by (simp add: prod_eq_iff)
  consider "ai_choice = Some ''both''" | "ai_choice = Some ''gemini''"
    | "ai_choice = Some ''chatgpt''"
    | "ai_choice \<noteq> Some ''gemini''" "ai_choice \<noteq> Some ''chatgpt''" "ai_choice \<noteq> Some ''both''"
    by blast
  then show ?thesis
  proof cases
    case 1
    then show ?thesis
      by (simp add: perform_analysis_def f gather_def tasks_of_def format_response_both)
  next
    case 2
    then show ?thesis
      by (simp add: perform_analysis_def f gather_def tasks_of_def format_response_gemini)
  next
    case 3
    then show ?thesis
      by (simp add: perform_analysis_def f gather_def tasks_of_def format_response_chatgpt)
  next
    case 4
    then show ?thesis
      by (simp add: perform_analysis_def f gather_def tasks_of_def format_response_none)
  qed
qed

text \<open>The fetch in the example world, and in the same world with the page missing.\<close>

lemma example_fetch:
  "fetch_website_content example_world example_url
     = (Inr ''<html>ok</html>'', [HttpGet example_url])"
  by (simp add: fetch_website_content_def fetch_attempt_def raise_for_status_def
      example_world_def)

lemma str_int_404: "str_int 404 = ''404''"
  by (simp add: str_int_def digits.simps)

lemma missing_page_fetch:
  "fetch_website_content missing_page_world example_url
     = (Inl (Exception ''Failed to fetch content (Status: 404). Site may be down.''),
        [HttpGet example_url])"
  by (simp add: fetch_website_content_def fetch_attempt_def raise_for_status_def
      missing_page_world_def example_world_def str_int_404)


text \<open>The route hands on what \<^verbatim>\<open>perform_analysis\<close> returned.\<close>

lemma analyze_runs_perform_analysis:
  assumes "\<not> not_configured w" and "url \<noteq> []"
    and "perform_analysis w url ai_choice AI_SYSTEM_PROMPT = (Inr (response_data, code), ev)"
  shows "analyze w (Inr \<lparr>json_url = Some url, json_ai_choice = ai_choice\<rparr>)
           = ((response_data, code), ev)"
  using assms by (simp add: analyze_def)

text \<open>What each adapter returns and calls, by the state of its backend.\<close>

lemma gemini_raised:
  assumes "gemini_model w = Some model"
    and "model (full_prompt_of system_prompt user_prompt) = Inl e"
  shows "analyze_with_gemini w user_prompt system_prompt
           = (Inr (Str (''Error during Gemini analysis: '' @ str_exc e)),
              [GenerateContent (full_prompt_of system_prompt user_prompt)])"
  using assms by (simp add: analyze_with_gemini_def)

lemma gemini_replied:
  assumes "gemini_model w = Some model"
    and "model (full_prompt_of system_prompt user_prompt) = Inr reply"
  shows "analyze_with_gemini w user_prompt system_prompt
           = (Inr (Str reply), [GenerateContent (full_prompt_of system_prompt user_prompt)])"
  using assms by (simp add: analyze_with_gemini_def)

lemma openai_raised:
  assumes "openai_client w = Some client"
    and "client system_prompt user_prompt = Inl e"
  shows "analyze_with_openai w user_prompt system_prompt
           = (Inr (Str (''Error during OpenAI analysis: '' @ str_exc e)),
              [ChatCompletion system_prompt user_prompt])"
  using assms by (simp add: analyze_with_openai_def)

lemma openai_replied:
  assumes "openai_client w = Some client"
    and "client system_prompt user_prompt = Inr content"
  shows "analyze_with_openai w user_prompt system_prompt
           = (Inr content, [ChatCompletion system_prompt user_prompt])"
  using assms by (simp add: analyze_with_openai_def)

lemma gemini_unconfigured:
  "gemini_model w = None \<Longrightarrow> analyze_with_gemini w user_prompt system_prompt
     = (Inr (Str ''Error: Gemini model is not configured or API key is missing.''), [])"
  by (simp add: analyze_with_gemini_def)

lemma openai_unconfigured:
  "openai_client w = None \<Longrightarrow> analyze_with_openai w user_prompt system_prompt
     = (Inr (Str ''Error: OpenAI client is not configured or API key is missing.''), [])"
  by (simp add: analyze_with_openai_def)

lemma gemini_down_fetch:
  "fst (fetch_website_content gemini_down_world example_url) = Inr ''<html>ok</html>''"
  by (simp add: fetch_website_content_def fetch_attempt_def raise_for_status_def
      gemini_down_world_def example_world_def)

lemma openai_down_fetch:
  "fst (fetch_website_content openai_down_world example_url) = Inr ''<html>ok</html>''"
  by (simp add: fetch_website_content_def fetch_attempt_def raise_for_status_def
      openai_down_world_def example_world_def)

text \<open>An adapter calls no backend but its own.\<close>

lemma gemini_events: "ChatCompletion s u \<notin> set (snd (analyze_with_gemini w user_prompt system_prompt))"
  by (simp add: analyze_with_gemini_def Let_def split: option.split)

lemma openai_events: "GenerateContent p \<notin> set (snd (analyze_with_openai w user_prompt system_prompt))"
  by (simp add: analyze_with_openai_def split: option.split)

lemma off_world_fetch:
  "fst (fetch_website_content gemini_off_world example_url) = Inr ''<html>ok</html>''"
  "fst (fetch_website_content openai_off_world example_url) = Inr ''<html>ok</html>''"
  by (simp_all add: fetch_website_content_def fetch_attempt_def raise_for_status_def
      gemini_off_world_def openai_off_world_def example_world_def)

lemma perform_analysis_status:
  "fst (fetch_website_content w url) = Inr source_code
   \<Longrightarrow> \<exists>response_data. fst (perform_analysis w url ai_choice system_prompt)
                           = Inr (response_data, 200)"
  by (simp add: perform_analysis_fetched)

lemma all_down_fetch:
  "fst (fetch_website_content all_down_world example_url) = Inr ''<html>ok</html>''"
  by (simp add: fetch_website_content_def fetch_attempt_def raise_for_status_def
      all_down_world_def example_world_def)

lemma all_down_both:
  "fst (perform_analysis all_down_world example_url (Some ''both'') AI_SYSTEM_PROMPT)
     = Inr ([(''gemini'', Str ''Error during Gemini analysis: quota exceeded''),
             (''chatgpt'', Str ''Error during OpenAI analysis: connection reset'')], 200)"
proof -
  have g: "fst (analyze_with_gemini all_down_world u s)
             = Inr (Str ''Error during Gemini analysis: quota exceeded'')" for u s
    by (simp add: analyze_with_gemini_def all_down_world_def)
  have c: "fst (analyze_with_openai all_down_world u s)
             = Inr (Str ''Error during OpenAI analysis: connection reset'')" for u s
    by (simp add: analyze_with_openai_def all_down_world_def)
  show ?thesis
    by (simp add: perform_analysis_fetched [OF all_down_fetch] slot_text_def g c)
qed

text \<open>\<open>digits\<close> writes its argument in decimal.\<close>

lemma digit_value_nth:
  assumes "k < 10"
  shows "digit_value (''0123456789'' ! k) = k"
proof -
  from assms have "k = 0 \<or> k = 1 \<or> k = 2 \<or> k = 3 \<or> k = 4 \<or> k = 5 \<or> k = 6 \<or> k = 7 \<or> k = 8 \<or> k = 9"
    by arith
  then show ?thesis
    by (elim disjE) (simp_all add: digit_value_def)
qed

lemma decimal_value_snoc:
  "decimal_value (s @ [c]) = 10 * decimal_value s + digit_value c"
  by (simp add: decimal_value_def)

lemma decimal_value_digits: "decimal_value (digits n) = n"
proof (induction n rule: digits.induct)
  case (1 n)
  show ?case
  proof (cases "n < 10")
    case True
    then show ?thesis
      by (simp add: digits.simps [of n] decimal_value_def digit_value_nth)
  next
    case False
    with "1" have "decimal_value (digits (n div 10)) = n div 10" by simp
    with False show ?thesis
      by (simp add: digits.simps [of n] decimal_value_snoc digit_value_nth)
  qed
qed

lemma gemini_calls:
  "gemini_model w = Some model
   \<Longrightarrow> snd (analyze_with_gemini w user_prompt system_prompt)
         = [GenerateContent (full_prompt_of system_prompt user_prompt)]"
  by (simp add: analyze_with_gemini_def Let_def)

lemma openai_calls:
  "openai_client w = Some client
   \<Longrightarrow> snd (analyze_with_openai w user_prompt system_prompt)
         = [ChatCompletion system_prompt user_prompt]"
  by (simp add: analyze_with_openai_def)

lemma long_page_fetch:
  "fst (fetch_website_content long_page_world example_url) = Inr (replicate 15001 (CHR ''a''))"
  by (simp add: fetch_website_content_def fetch_attempt_def raise_for_status_def
      long_page_world_def)

section \<open>The merged response\<close>

text \<open>
  C1. Whenever the content fetch succeeds, \<^verbatim>\<open>perform_analysis\<close> returns status 200 and a
  response with exactly one entry per selected provider and no other: its keys are
  distinct and among \<^verbatim>\<open>gemini\<close> and \<^verbatim>\<open>chatgpt\<close>; \<^verbatim>\<open>gemini\<close> is a key exactly when
  \<open>ai_choice\<close> is \<^verbatim>\<open>gemini\<close> or \<^verbatim>\<open>both\<close>, \<^verbatim>\<open>chatgpt\<close> exactly when it is \<^verbatim>\<open>chatgpt\<close> or
  \<^verbatim>\<open>both\<close>; and each key holds what that provider's own adapter returned on the shared
  prompt, whatever the adapters returned.
\<close>

theorem one_entry_per_selected_provider:
  assumes "fst (fetch_website_content w url) = Inr source_code"
  shows "\<exists>response_data g c.
           fst (perform_analysis w url ai_choice system_prompt) = Inr (response_data, 200)
         \<and> fst (analyze_with_gemini w (user_prompt_of url source_code) system_prompt) = Inr g
         \<and> fst (analyze_with_openai w (user_prompt_of url source_code) system_prompt) = Inr c
         \<and> distinct (map fst response_data)
         \<and> fst ` set response_data \<subseteq> {''gemini'', ''chatgpt''}
         \<and> (''gemini'' \<in> fst ` set response_data)
             = (ai_choice = Some ''gemini'' \<or> ai_choice = Some ''both'')
         \<and> (''chatgpt'' \<in> fst ` set response_data)
             = (ai_choice = Some ''chatgpt'' \<or> ai_choice = Some ''both'')
         \<and> map_of response_data ''gemini''
             = (if ai_choice = Some ''gemini'' \<or> ai_choice = Some ''both'' then Some g else None)
         \<and> map_of response_data ''chatgpt''
             = (if ai_choice = Some ''chatgpt'' \<or> ai_choice = Some ''both'' then Some c else None)"
proof -
  obtain g where g: "fst (analyze_with_gemini w (user_prompt_of url source_code) system_prompt) = Inr g"
    using analyze_with_gemini_returns by blast
  obtain c where c: "fst (analyze_with_openai w (user_prompt_of url source_code) system_prompt) = Inr c"
    using analyze_with_openai_returns by blast
  let ?rd = "(if ai_choice = Some ''gemini'' \<or> ai_choice = Some ''both'' then [(''gemini'', g)] else [])
           @ (if ai_choice = Some ''chatgpt'' \<or> ai_choice = Some ''both'' then [(''chatgpt'', c)] else [])"
  have pa: "fst (perform_analysis w url ai_choice system_prompt) = Inr (?rd, 200)"
    by (simp add: perform_analysis_fetched [OF assms] g c slot_text_def)
  have d: "distinct (map fst ?rd)" by simp
  have sub: "fst ` set ?rd \<subseteq> {''gemini'', ''chatgpt''}" by auto
  have kg: "(''gemini'' \<in> fst ` set ?rd)
              = (ai_choice = Some ''gemini'' \<or> ai_choice = Some ''both'')"
    by auto
  have kc: "(''chatgpt'' \<in> fst ` set ?rd)
              = (ai_choice = Some ''chatgpt'' \<or> ai_choice = Some ''both'')"
    by auto
  have mg: "map_of ?rd ''gemini''
              = (if ai_choice = Some ''gemini'' \<or> ai_choice = Some ''both'' then Some g else None)"
    by simp
  have mc: "map_of ?rd ''chatgpt''
              = (if ai_choice = Some ''chatgpt'' \<or> ai_choice = Some ''both'' then Some c else None)"
    by simp
  show ?thesis
    by (rule exI [where x = "?rd"], rule exI [where x = g], rule exI [where x = c])
       (simp only: pa d sub kg kc mg mc g c simp_thms)
qed

text \<open>In the example world with both providers selected, each key holds its own reply.\<close>

theorem one_entry_per_selected_provider_witness:
  "fst (fetch_website_content example_world example_url) = Inr ''<html>ok</html>''
   \<and> (\<exists>response_data.
         fst (perform_analysis example_world example_url (Some ''both'') AI_SYSTEM_PROMPT)
           = Inr (response_data, 200)
       \<and> distinct (map fst response_data)
       \<and> ''gemini'' \<in> fst ` set response_data
       \<and> ''chatgpt'' \<in> fst ` set response_data
       \<and> map_of response_data ''gemini'' = Some (Str gemini_reply)
       \<and> map_of response_data ''chatgpt'' = Some (Str chatgpt_reply))"
proof -
  have h: "fst (fetch_website_content example_world example_url) = Inr ''<html>ok</html>''"
    by (simp add: example_fetch)
  have g: "fst (analyze_with_gemini example_world u s) = Inr (Str gemini_reply)" for u s
    by (simp add: analyze_with_gemini_def example_world_def)
  have c: "fst (analyze_with_openai example_world u s) = Inr (Str chatgpt_reply)" for u s
    by (simp add: analyze_with_openai_def example_world_def)
  from one_entry_per_selected_provider [OF h, of "Some ''both''" AI_SYSTEM_PROMPT]
  show ?thesis using h by (simp add: g c) blast
qed

section \<open>A failed fetch\<close>

text \<open>
  C2. If the content fetch fails, \<^verbatim>\<open>perform_analysis\<close> returns status 400 with the body
  \<^verbatim>\<open>{"error": str(e)}\<close> of that fetch error and nothing else; the only event of the
  request is the GET, so no provider was called. The route returns the same body and
  status.
\<close>

theorem fetch_failure_aborts_request:
  assumes "fst (fetch_website_content w url) = Inl e"
  shows "perform_analysis w url ai_choice system_prompt
           = (Inr ([(''error'', Str (str_exc e))], 400), [HttpGet url])
       \<and> (\<not> not_configured w \<and> url \<noteq> [] \<longrightarrow>
            analyze w (Inr \<lparr>json_url = Some url, json_ai_choice = ai_choice\<rparr>)
              = (([(''error'', Str (str_exc e))], 400), [HttpGet url]))"
  using perform_analysis_fetch_failed [OF assms] analyze_runs_perform_analysis
  by simp

text \<open>The page answers 404 and both providers are selected: one GET, status 400.\<close>

theorem fetch_failure_aborts_request_witness:
  "fst (fetch_website_content missing_page_world example_url)
     = Inl (Exception ''Failed to fetch content (Status: 404). Site may be down.'')
   \<and> \<not> not_configured missing_page_world \<and> example_url \<noteq> []
   \<and> perform_analysis missing_page_world example_url (Some ''both'') AI_SYSTEM_PROMPT
        = (Inr ([(''error'', Str ''Failed to fetch content (Status: 404). Site may be down.'')], 400),
           [HttpGet example_url])
   \<and> analyze missing_page_world
        (Inr \<lparr>json_url = Some example_url, json_ai_choice = Some ''both''\<rparr>)
        = (([(''error'', Str ''Failed to fetch content (Status: 404). Site may be down.'')], 400),
           [HttpGet example_url])"
proof -
  have h: "fst (fetch_website_content missing_page_world example_url)
             = Inl (Exception ''Failed to fetch content (Status: 404). Site may be down.'')"
    by (simp add: missing_page_fetch)
  have c: "\<not> not_configured missing_page_world"
    by (simp add: not_configured_def missing_page_world_def example_world_def)
  have u: "example_url \<noteq> []" by (simp add: example_url_def)
  from fetch_failure_aborts_request [OF h, of "Some ''both''" AI_SYSTEM_PROMPT] h c u
  show ?thesis by simp
qed

section \<open>Provider failures\<close>

text \<open>
  C3. A failure of one provider does not keep the other's result out of the response.
  Each adapter turns an exception raised by its backend call into a string holding the
  error message and returns it; so with both providers selected and configured, when one
  call raises and the other returns a reply, the response (status 200) holds the reply
  under its provider's key next to the error string under the failed provider's key.
\<close>

theorem provider_failure_is_isolated:
  assumes "fst (fetch_website_content w url) = Inr source_code"
    and "gemini_model w = Some model" and "openai_client w = Some client"
  shows "(model (full_prompt_of system_prompt (user_prompt_of url source_code)) = Inl e
          \<and> client system_prompt (user_prompt_of url source_code) = Inr content
          \<longrightarrow> fst (perform_analysis w url (Some ''both'') system_prompt)
                = Inr ([(''gemini'', Str (''Error during Gemini analysis: '' @ str_exc e)),
                        (''chatgpt'', content)], 200))
       \<and> (model (full_prompt_of system_prompt (user_prompt_of url source_code)) = Inr reply
          \<and> client system_prompt (user_prompt_of url source_code) = Inl e
          \<longrightarrow> fst (perform_analysis w url (Some ''both'') system_prompt)
                = Inr ([(''gemini'', Str reply),
                        (''chatgpt'', Str (''Error during OpenAI analysis: '' @ str_exc e))], 200))
       \<and> (model (full_prompt_of system_prompt user_prompt) = Inl e
          \<longrightarrow> fst (analyze_with_gemini w user_prompt system_prompt)
                = Inr (Str (''Error during Gemini analysis: '' @ str_exc e)))
       \<and> (client system_prompt user_prompt = Inl e
          \<longrightarrow> fst (analyze_with_openai w user_prompt system_prompt)
                = Inr (Str (''Error during OpenAI analysis: '' @ str_exc e)))"
  using assms
  by (simp add: perform_analysis_fetched [OF assms(1)] gemini_raised gemini_replied
      openai_raised openai_replied slot_text_def)

text \<open>Once with the first provider raising, once with the second.\<close>

theorem provider_failure_is_isolated_witness:
  "fst (perform_analysis gemini_down_world example_url (Some ''both'') AI_SYSTEM_PROMPT)
     = Inr ([(''gemini'', Str ''Error during Gemini analysis: quota exceeded''),
             (''chatgpt'', Str chatgpt_reply)], 200)
   \<and> fst (perform_analysis openai_down_world example_url (Some ''both'') AI_SYSTEM_PROMPT)
     = Inr ([(''gemini'', Str gemini_reply),
             (''chatgpt'', Str ''Error during OpenAI analysis: connection reset'')], 200)"
proof -
  have g: "gemini_model gemini_down_world = Some (\<lambda>full_prompt. Inl (Exception ''quota exceeded''))"
    by (simp add: gemini_down_world_def)
  have c: "openai_client gemini_down_world = Some (\<lambda>system_prompt user_prompt. Inr (Str chatgpt_reply))"
    by (simp add: gemini_down_world_def example_world_def)
  have g': "gemini_model openai_down_world = Some (\<lambda>full_prompt. Inr gemini_reply)"
    by (simp add: openai_down_world_def example_world_def)
  have c': "openai_client openai_down_world
              = Some (\<lambda>system_prompt user_prompt. Inl (Exception ''connection reset''))"
    by (simp add: openai_down_world_def)
  from provider_failure_is_isolated [OF gemini_down_fetch g c,
      where system_prompt = AI_SYSTEM_PROMPT and e = "Exception ''quota exceeded''"
        and content = "Str chatgpt_reply"]
    provider_failure_is_isolated [OF openai_down_fetch g' c',
      where system_prompt = AI_SYSTEM_PROMPT and e = "Exception ''connection reset''"
        and reply = gemini_reply]
  show ?thesis by simp
qed

text \<open>
  C5. A selected provider that is not configured gets an entry all the same. Its adapter
  returns the string \<^verbatim>\<open>Error: ... is not configured or API key is missing.\<close> at once and
  calls no backend; after a successful fetch \<^verbatim>\<open>perform_analysis\<close> returns status 200
  with that string under the provider's key, and the trace holds no call to that
  provider. The route, with the second provider alone selected and not configured
  (the first is configured), returns \<^verbatim>\<open>{"chatgpt": "Error: ..."}\<close> with status 200.
\<close>

theorem unconfigured_provider_gets_failure_entry:
  assumes "fst (fetch_website_content w url) = Inr source_code"
  shows "(gemini_model w = None \<longrightarrow>
            analyze_with_gemini w user_prompt system_prompt
              = (Inr (Str ''Error: Gemini model is not configured or API key is missing.''), [])
          \<and> (ai_choice = Some ''gemini'' \<or> ai_choice = Some ''both'' \<longrightarrow>
               (\<exists>response_data.
                   fst (perform_analysis w url ai_choice system_prompt) = Inr (response_data, 200)
                 \<and> map_of response_data ''gemini''
                     = Some (Str ''Error: Gemini model is not configured or API key is missing.''))
               \<and> (\<forall>p. GenerateContent p
                        \<notin> set (snd (perform_analysis w url ai_choice system_prompt)))))
       \<and> (openai_client w = None \<longrightarrow>
            analyze_with_openai w user_prompt system_prompt
              = (Inr (Str ''Error: OpenAI client is not configured or API key is missing.''), [])
          \<and> (ai_choice = Some ''chatgpt'' \<or> ai_choice = Some ''both'' \<longrightarrow>
               (\<exists>response_data.
                   fst (perform_analysis w url ai_choice system_prompt) = Inr (response_data, 200)
                 \<and> map_of response_data ''chatgpt''
                     = Some (Str ''Error: OpenAI client is not configured or API key is missing.''))
               \<and> (\<forall>s u. ChatCompletion s u
                        \<notin> set (snd (perform_analysis w url ai_choice system_prompt))))
          \<and> (\<not> not_configured w \<and> url \<noteq> [] \<longrightarrow>
               analyze w (Inr \<lparr>json_url = Some url, json_ai_choice = Some ''chatgpt''\<rparr>)
                 = (([(''chatgpt'',
                       Str ''Error: OpenAI client is not configured or API key is missing.'')], 200),
                    [HttpGet url])))"
proof (intro conjI impI)
  assume "gemini_model w = None"
  then show "analyze_with_gemini w user_prompt system_prompt
              = (Inr (Str ''Error: Gemini model is not configured or API key is missing.''), [])"
    by (rule gemini_unconfigured)
next
  assume n: "gemini_model w = None" and a: "ai_choice = Some ''gemini'' \<or> ai_choice = Some ''both''"
  show "\<exists>response_data.
          fst (perform_analysis w url ai_choice system_prompt) = Inr (response_data, 200)
        \<and> map_of response_data ''gemini''
            = Some (Str ''Error: Gemini model is not configured or API key is missing.'')"
    using a by (auto simp add: perform_analysis_fetched [OF assms] gemini_unconfigured [OF n] slot_text_def)
  show "\<forall>p. GenerateContent p \<notin> set (snd (perform_analysis w url ai_choice system_prompt))"
    by (simp add: perform_analysis_fetched [OF assms] gemini_unconfigured [OF n] openai_events)
next
  assume "openai_client w = None"
  then show "analyze_with_openai w user_prompt system_prompt
              = (Inr (Str ''Error: OpenAI client is not configured or API key is missing.''), [])"
    by (rule openai_unconfigured)
next
  assume n: "openai_client w = None" and a: "ai_choice = Some ''chatgpt'' \<or> ai_choice = Some ''both''"
  show "\<exists>response_data.
          fst (perform_analysis w url ai_choice system_prompt) = Inr (response_data, 200)
        \<and> map_of response_data ''chatgpt''
            = Some (Str ''Error: OpenAI client is not configured or API key is missing.'')"
    using a by (auto simp add: perform_analysis_fetched [OF assms] openai_unconfigured [OF n] slot_text_def)
  show "\<forall>s u. ChatCompletion s u \<notin> set (snd (perform_analysis w url ai_choice system_prompt))"
    by (simp add: perform_analysis_fetched [OF assms] openai_unconfigured [OF n] gemini_events)
next
  assume n: "openai_client w = None" and cu: "\<not> not_configured w \<and> url \<noteq> []"
  from cu have c: "\<not> not_configured w" and u: "url \<noteq> []" by simp_all
  have "perform_analysis w url (Some ''chatgpt'') AI_SYSTEM_PROMPT
          = (Inr ([(''chatgpt'', Str ''Error: OpenAI client is not configured or API key is missing.'')], 200),
             [HttpGet url])"
    by (simp add: perform_analysis_fetched [OF assms] openai_unconfigured [OF n] slot_text_def)
  then show "analyze w (Inr \<lparr>json_url = Some url, json_ai_choice = Some ''chatgpt''\<rparr>)
                 = (([(''chatgpt'',
                       Str ''Error: OpenAI client is not configured or API key is missing.'')], 200),
                    [HttpGet url])"
    by (rule analyze_runs_perform_analysis [OF c u])
qed

text \<open>The first provider off with both selected; the second off and selected alone.\<close>

theorem unconfigured_provider_gets_failure_entry_witness:
  "gemini_model gemini_off_world = None
   \<and> (\<exists>response_data.
         fst (perform_analysis gemini_off_world example_url (Some ''both'') AI_SYSTEM_PROMPT)
           = Inr (response_data, 200)
       \<and> map_of response_data ''gemini''
           = Some (Str ''Error: Gemini model is not configured or API key is missing.''))
   \<and> openai_client openai_off_world = None
   \<and> \<not> not_configured openai_off_world \<and> example_url \<noteq> []
   \<and> analyze openai_off_world
        (Inr \<lparr>json_url = Some example_url, json_ai_choice = Some ''chatgpt''\<rparr>)
        = (([(''chatgpt'', Str ''Error: OpenAI client is not configured or API key is missing.'')],
            200),
           [HttpGet example_url])"
proof -
  have g: "gemini_model gemini_off_world = None" by (simp add: gemini_off_world_def)
  have o: "openai_client openai_off_world = None" by (simp add: openai_off_world_def)
  have c: "\<not> not_configured openai_off_world"
    by (simp add: not_configured_def openai_off_world_def example_world_def)
  have u: "example_url \<noteq> []" by (simp add: example_url_def)
  from unconfigured_provider_gets_failure_entry [OF off_world_fetch(1),
      where ai_choice = "Some ''both''" and system_prompt = AI_SYSTEM_PROMPT]
    unconfigured_provider_gets_failure_entry [OF off_world_fetch(2),
      where ai_choice = "Some ''chatgpt''" and system_prompt = AI_SYSTEM_PROMPT]
    g o c u
  show ?thesis by simp
qed

section \<open>What the adapters return\<close>

text \<open>
  Neither adapter raises: the first always returns a string, the second a string or the
  content of the reply as it came. So no slot of the results of \<^verbatim>\<open>gather\<close> holds an
  exception, and \<^verbatim>\<open>perform_analysis\<close> always returns a response and a status.
\<close>

lemma no_exception_in_results:
  "Inl e \<notin> set (fst (gather (tasks_of w ai_choice user_prompt system_prompt)))"
  using analyze_with_gemini_returns [of w user_prompt system_prompt]
    analyze_with_openai_returns [of w user_prompt system_prompt]
  by (auto simp add: gather_def tasks_of_def)

lemma perform_analysis_returns:
  "\<exists>response_data code.
     fst (perform_analysis w url ai_choice system_prompt) = Inr (response_data, code)"
proof (cases "fst (fetch_website_content w url)")
  case (Inl e)
  then show ?thesis by (simp add: perform_analysis_fetch_failed)
next
  case (Inr source_code)
  then show ?thesis by (simp add: perform_analysis_fetched)
qed

lemma openai_returns_content_or_message:
  assumes "openai_client w = Some client"
  shows "fst (analyze_with_openai w user_prompt system_prompt)
           = (case client system_prompt user_prompt of
                Inr content \<Rightarrow> Inr content
              | Inl e \<Rightarrow> Inr (Str (''Error during OpenAI analysis: '' @ str_exc e)))"
  using assms by (simp add: analyze_with_openai_def)

text \<open>
  C10 says that both adapters return a string for every input, so that every value put
  into the response is a string. \<^verbatim>\<open>analyze_with_openai\<close>, declared \<^verbatim>\<open>-> str\<close>, does
  not: it returns \<^verbatim>\<open>response.choices[0].message.content\<close> with no test for \<^verbatim>\<open>None\<close>.
  In the world where the chat completion answers with a message that has no content,
  the adapter returns \<^verbatim>\<open>None\<close> after its one call, and \<^verbatim>\<open>perform_analysis\<close>, with both
  providers selected, puts \<^verbatim>\<open>None\<close> under the key \<^verbatim>\<open>chatgpt\<close> with status 200.
\<close>

theorem openai_adapter_returns_none:
  "analyze_with_openai null_content_world user_prompt system_prompt
     = (Inr PyNone, [ChatCompletion system_prompt user_prompt])
   \<and> fst (perform_analysis null_content_world example_url (Some ''both'') AI_SYSTEM_PROMPT)
     = Inr ([(''gemini'', Str gemini_reply), (''chatgpt'', PyNone)], 200)"
proof -
  have c: "analyze_with_openai null_content_world u s = (Inr PyNone, [ChatCompletion s u])"
    for u s
    by (simp add: analyze_with_openai_def null_content_world_def)
  have g: "fst (analyze_with_gemini null_content_world u s) = Inr (Str gemini_reply)" for u s
    by (simp add: analyze_with_gemini_def null_content_world_def example_world_def)
  have f: "fst (fetch_website_content null_content_world example_url) = Inr ''<html>ok</html>''"
    by (simp add: fetch_website_content_def fetch_attempt_def raise_for_status_def
        null_content_world_def example_world_def)
  show ?thesis
    by (simp add: c g perform_analysis_fetched [OF f] slot_text_def)
qed

section \<open>The status of a request\<close>

text \<open>
  C9. The status of the route: with a provider configured and a URL given, a request
  whose fetch succeeded returns 200 whatever the providers' calls did, and a request
  whose fetch failed returns 400; with no provider configured the route returns 500 at
  once, with an empty trace: neither the fetch nor a provider call was made.
\<close>

theorem request_status_contract:
  "(\<not> not_configured w \<and> url \<noteq> [] \<and> fst (fetch_website_content w url) = Inr source_code
      \<longrightarrow> snd (fst (analyze w (Inr \<lparr>json_url = Some url, json_ai_choice = ai_choice\<rparr>))) = 200)
   \<and> (\<not> not_configured w \<and> url \<noteq> [] \<and> fst (fetch_website_content w url) = Inl e
      \<longrightarrow> snd (fst (analyze w (Inr \<lparr>json_url = Some url, json_ai_choice = ai_choice\<rparr>))) = 400)
   \<and> (not_configured w
      \<longrightarrow> analyze w get_json
            = (([(''error'', Str ''Server is not configured with at least one valid API key.'')],
                500), []))"
proof (intro conjI impI)
  assume a: "\<not> not_configured w \<and> url \<noteq> [] \<and> fst (fetch_website_content w url) = Inr source_code"
  then obtain response_data where
    "fst (perform_analysis w url ai_choice AI_SYSTEM_PROMPT) = Inr (response_data, 200)"
    using perform_analysis_status by blast
  then have "perform_analysis w url ai_choice AI_SYSTEM_PROMPT
               = (Inr (response_data, 200), snd (perform_analysis w url ai_choice AI_SYSTEM_PROMPT))"
    by (simp add: prod_eq_iff)
  from analyze_runs_perform_analysis [OF _ _ this] a
  show "snd (fst (analyze w (Inr \<lparr>json_url = Some url, json_ai_choice = ai_choice\<rparr>))) = 200"
    by simp
next
  assume a: "\<not> not_configured w \<and> url \<noteq> [] \<and> fst (fetch_website_content w url) = Inl e"
  then have "perform_analysis w url ai_choice AI_SYSTEM_PROMPT
               = (Inr ([(''error'', Str (str_exc e))], 400), [HttpGet url])"
    by (simp add: perform_analysis_fetch_failed)
  from analyze_runs_perform_analysis [OF _ _ this] a
  show "snd (fst (analyze w (Inr \<lparr>json_url = Some url, json_ai_choice = ai_choice\<rparr>))) = 400"
    by simp
next
  assume "not_configured w"
  then show "analyze w get_json
            = (([(''error'', Str ''Server is not configured with at least one valid API key.'')],
                500), [])"
    by (simp add: analyze_def)
qed

text \<open>
  Status 200 with both providers failing, 400 with the page missing, 500 with nothing
  configured.
\<close>

theorem request_status_contract_witness:
  "\<not> not_configured all_down_world \<and> example_url \<noteq> []
   \<and> fst (perform_analysis all_down_world example_url (Some ''both'') AI_SYSTEM_PROMPT)
     = Inr ([(''gemini'', Str ''Error during Gemini analysis: quota exceeded''),
             (''chatgpt'', Str ''Error during OpenAI analysis: connection reset'')], 200)
   \<and> snd (fst (analyze all_down_world
        (Inr \<lparr>json_url = Some example_url, json_ai_choice = Some ''both''\<rparr>))) = 200
   \<and> \<not> not_configured missing_page_world
   \<and> snd (fst (analyze missing_page_world
        (Inr \<lparr>json_url = Some example_url, json_ai_choice = Some ''both''\<rparr>))) = 400
   \<and> not_configured unconfigured_world
   \<and> analyze unconfigured_world
        (Inr \<lparr>json_url = Some example_url, json_ai_choice = Some ''both''\<rparr>)
        = (([(''error'', Str ''Server is not configured with at least one valid API key.'')], 500),
           [])"
proof -
  have c1: "\<not> not_configured all_down_world"
    by (simp add: not_configured_def all_down_world_def example_world_def)
  have c2: "\<not> not_configured missing_page_world"
    by (simp add: not_configured_def missing_page_world_def example_world_def)
  have c3: "not_configured unconfigured_world"
    by (simp add: not_configured_def unconfigured_world_def)
  have u: "example_url \<noteq> []" by (simp add: example_url_def)
  from request_status_contract [where w = all_down_world and url = example_url
      and source_code = "''<html>ok</html>''" and ai_choice = "Some ''both''"]
    request_status_contract [where w = missing_page_world and url = example_url
      and e = "Exception ''Failed to fetch content (Status: 404). Site may be down.''"
      and ai_choice = "Some ''both''"]
    request_status_contract [where w = unconfigured_world
      and get_json = "Inr \<lparr>json_url = Some example_url, json_ai_choice = Some ''both''\<rparr>"]
    c1 c2 c3 u all_down_fetch all_down_both missing_page_fetch
  show ?thesis by simp
qed

section \<open>A choice that selects no provider\<close>




section \<open>Failures of the fetch\<close>

text \<open>
  C8. The two kinds of fetch failure. A response whose status is outside 200..299 makes
  the fetch raise \<^verbatim>\<open>Failed to fetch content (Status: N). Site may be down.\<close>, where \<open>N\<close>
  is the status code in decimal (\<open>str_int\<close> of a number that is not negative reads back
  as that number). Every \<^verbatim>\<open>httpx.RequestError\<close>, whatever its message, makes it raise
  the one fixed message \<^verbatim>\<open>Could not retrieve website content. ...\<close>. In every case the
  trace of the fetch is exactly one GET: there is no second attempt.
\<close>

theorem fetch_failure_taxonomy:
  "(client_get w url = Inr r \<and> \<not> (200 \<le> status_code r \<and> status_code r \<le> 299) \<longrightarrow>
      fst (fetch_website_content w url)
        = Inl (Exception (''Failed to fetch content (Status: '' @ str_int (status_code r)
                          @ ''). Site may be down.''))
      \<and> (\<exists>msg. fst (fetch_website_content w url) = Inl (Exception msg)
                \<and> sublist (str_int (status_code r)) msg))
   \<and> (0 \<le> n \<longrightarrow> int (decimal_value (str_int n)) = n)
   \<and> (client_get w url = Inl (RequestError m) \<longrightarrow>
        fst (fetch_website_content w url)
          = Inl (Exception
              ''Could not retrieve website content. The site might be offline or unreachable.''))
   \<and> snd (fetch_website_content w url) = [HttpGet url]"
proof (intro conjI impI)
  assume a: "client_get w url = Inr r \<and> \<not> (200 \<le> status_code r \<and> status_code r \<le> 299)"
  then show f: "fst (fetch_website_content w url)
        = Inl (Exception (''Failed to fetch content (Status: '' @ str_int (status_code r)
                          @ ''). Site may be down.''))"
    by (auto simp add: fetch_website_content_def fetch_attempt_def raise_for_status_def)
  have "sublist (str_int (status_code r))
          (''Failed to fetch content (Status: '' @ str_int (status_code r)
             @ ''). Site may be down.'')"
    by (rule sublist_appendI)
  with f show "\<exists>msg. fst (fetch_website_content w url) = Inl (Exception msg)
                \<and> sublist (str_int (status_code r)) msg"
    by blast
next
  assume "0 \<le> n"
  then show "int (decimal_value (str_int n)) = n"
    by (simp add: str_int_def decimal_value_digits)
next
  assume "client_get w url = Inl (RequestError m)"
  then show "fst (fetch_website_content w url)
          = Inl (Exception
              ''Could not retrieve website content. The site might be offline or unreachable.'')"
    by (simp add: fetch_website_content_def fetch_attempt_def)
next
  show "snd (fetch_website_content w url) = [HttpGet url]"
    by (rule fetch_website_content_events)
qed

text \<open>A page answering 404, and a site that times out.\<close>

theorem fetch_failure_taxonomy_witness:
  "client_get missing_page_world example_url = Inr \<lparr>status_code = 404, resp_text = ''Not Found''\<rparr>
   \<and> fetch_website_content missing_page_world example_url
       = (Inl (Exception ''Failed to fetch content (Status: 404). Site may be down.''),
          [HttpGet example_url])
   \<and> decimal_value ''404'' = 404
   \<and> client_get offline_world example_url = Inl (RequestError ''timed out'')
   \<and> fetch_website_content offline_world example_url
       = (Inl (Exception
            ''Could not retrieve website content. The site might be offline or unreachable.''),
          [HttpGet example_url])"
proof -
  have a: "client_get missing_page_world example_url
             = Inr \<lparr>status_code = 404, resp_text = ''Not Found''\<rparr>"
    by (simp add: missing_page_world_def)
  have b: "client_get offline_world example_url = Inl (RequestError ''timed out'')"
    by (simp add: offline_world_def)
  from fetch_failure_taxonomy [where w = missing_page_world and url = example_url
      and r = "\<lparr>status_code = 404, resp_text = ''Not Found''\<rparr>" and n = 404]
    fetch_failure_taxonomy [where w = offline_world and url = example_url
      and m = "''timed out''" and n = 404]
    a b
  show ?thesis by (simp add: prod_eq_iff str_int_404)
qed

section \<open>The prompt\<close>

text \<open>
  C6. The prompt is a function of the URL and the fetched text alone: it is
  \<^verbatim>\<open>URL: \<close>, the URL, a blank line, the heading \<^verbatim>\<open>SOURCE CODE (first 15,000 characters):\<close>
  and the first 15,000 characters of the text, a prefix of it, which is the whole text
  when that has 15,000 characters or fewer. After a successful fetch, with both providers
  configured, every call made carries this one prompt: as the user message of the chat
  completion, and after the system prompt and a \<^verbatim>\<open>---\<close> line in the text sent to the
  generative model.
\<close>

theorem prompt_is_truncated_prefix_shared:
  assumes "fst (fetch_website_content w url) = Inr source_code"
    and "gemini_model w = Some model" and "openai_client w = Some client"
  shows "snd (perform_analysis w url ai_choice system_prompt)
           = [HttpGet url]
             @ (if ai_choice = Some ''gemini'' \<or> ai_choice = Some ''both''
                then [GenerateContent (system_prompt @ [CHR 0x0A, CHR 0x0A] @ ''---''
                        @ [CHR 0x0A, CHR 0x0A] @ user_prompt_of url source_code)]
                else [])
             @ (if ai_choice = Some ''chatgpt'' \<or> ai_choice = Some ''both''
                then [ChatCompletion system_prompt (user_prompt_of url source_code)]
                else [])
       \<and> user_prompt_of url source_code
           = ''URL: '' @ url @ [CHR 0x0A, CHR 0x0A] @ ''SOURCE CODE (first 15,000 characters):''
             @ [CHR 0x0A] @ take 15000 source_code
       \<and> prefix (take 15000 source_code) source_code
       \<and> length (take 15000 source_code) = min 15000 (length source_code)
       \<and> (length source_code \<le> 15000 \<longrightarrow> take 15000 source_code = source_code)"
proof (intro conjI impI)
  show "snd (perform_analysis w url ai_choice system_prompt)
           = [HttpGet url]
             @ (if ai_choice = Some ''gemini'' \<or> ai_choice = Some ''both''
                then [GenerateContent (system_prompt @ [CHR 0x0A, CHR 0x0A] @ ''---''
                        @ [CHR 0x0A, CHR 0x0A] @ user_prompt_of url source_code)]
                else [])
             @ (if ai_choice = Some ''chatgpt'' \<or> ai_choice = Some ''both''
                then [ChatCompletion system_prompt (user_prompt_of url source_code)]
                else [])"
    by (simp add: perform_analysis_fetched [OF assms(1)] gemini_calls [OF assms(2)]
        openai_calls [OF assms(3)] full_prompt_of_def)
  show "user_prompt_of url source_code
           = ''URL: '' @ url @ [CHR 0x0A, CHR 0x0A] @ ''SOURCE CODE (first 15,000 characters):''
             @ [CHR 0x0A] @ take 15000 source_code"
    by (simp add: user_prompt_of_def)
  show "prefix (take 15000 source_code) source_code"
    by (rule take_is_prefix)
  show "length (take 15000 source_code) = min 15000 (length source_code)"
    by simp
  assume "length source_code \<le> 15000"
  then show "take 15000 source_code = source_code" by simp
qed

text \<open>
  A page of 15,001 characters: both calls carry its first 15,000. A short page is
  carried whole.
\<close>

theorem prompt_is_truncated_prefix_shared_witness:
  "fst (fetch_website_content long_page_world example_url) = Inr (replicate 15001 (CHR ''a''))
   \<and> snd (perform_analysis long_page_world example_url (Some ''both'') ''Classify.'')
     = [HttpGet ''http://good.example'',
        GenerateContent (''Classify.'' @ [CHR 0x0A, CHR 0x0A] @ ''---'' @ [CHR 0x0A, CHR 0x0A]
          @ ''URL: http://good.example'' @ [CHR 0x0A, CHR 0x0A]
          @ ''SOURCE CODE (first 15,000 characters):'' @ [CHR 0x0A]
          @ replicate 15000 (CHR ''a'')),
        ChatCompletion ''Classify.''
          (''URL: http://good.example'' @ [CHR 0x0A, CHR 0x0A]
           @ ''SOURCE CODE (first 15,000 characters):'' @ [CHR 0x0A]
           @ replicate 15000 (CHR ''a''))]
   \<and> length ''<html>ok</html>'' \<le> (15000::nat)
   \<and> user_prompt_of example_url ''<html>ok</html>''
     = ''URL: http://good.example'' @ [CHR 0x0A, CHR 0x0A]
       @ ''SOURCE CODE (first 15,000 characters):'' @ [CHR 0x0A] @ ''<html>ok</html>''"
proof -
  have g: "gemini_model long_page_world = Some (\<lambda>full_prompt. Inr gemini_reply)"
    by (simp add: long_page_world_def example_world_def)
  have c: "openai_client long_page_world = Some (\<lambda>system_prompt user_prompt. Inr (Str chatgpt_reply))"
    by (simp add: long_page_world_def example_world_def)
  have g': "gemini_model example_world = Some (\<lambda>full_prompt. Inr gemini_reply)"
    by (simp add: example_world_def)
  have c': "openai_client example_world = Some (\<lambda>system_prompt user_prompt. Inr (Str chatgpt_reply))"
    by (simp add: example_world_def)
  have e: "fst (fetch_website_content example_world example_url) = Inr ''<html>ok</html>''"
    by (simp add: example_fetch)
  have t: "take 15000 (replicate 15001 (CHR ''a'')) = replicate 15000 (CHR ''a'')"
    by simp
  from prompt_is_truncated_prefix_shared [OF long_page_fetch g c,
      where ai_choice = "Some ''both''" and system_prompt = "''Classify.''"]
    prompt_is_truncated_prefix_shared [OF e g' c',
      where ai_choice = "Some ''both''" and system_prompt = "''Classify.''"]
    long_page_fetch
  show ?thesis by (simp add: t example_url_def)
qed

section \<open>What \<^verbatim>\<open>formatResult\<close> finds in a text\<close>

text \<open>
  The leftmost match, characterised: there is none exactly when the expression matches
  at no start, and a match at a start with none before it is the one found.
\<close>

lemma first_match_None:
  "first_match at t = None \<longleftrightarrow> (\<forall>pre s. t = pre @ s \<longrightarrow> at s = None)"
proof (induction t)
  case Nil
  then show ?case by simp
next
  case (Cons c cs)
  then show ?case
    by (auto simp add: Cons_eq_append_conv split: option.splits)
qed

lemma first_match_Some:
  assumes "at s = Some r"
    and "\<forall>pre' s'. pre @ s = pre' @ s' \<and> length pre' < length pre \<longrightarrow> at s' = None"
  shows "first_match at (pre @ s) = Some r"
  using assms
proof (induction pre)
  case Nil
  then show ?case by (cases s) simp_all
next
  case (Cons p ps)
  from Cons.prems(2) have "(p # ps) @ s = [] @ ((p # ps) @ s) \<and> length ([]::string) < length (p # ps)
      \<longrightarrow> at ((p # ps) @ s) = None"
    by blast
  then have "at ((p # ps) @ s) = None" by simp
  moreover have "\<forall>pre' s'. ps @ s = pre' @ s' \<and> length pre' < length ps \<longrightarrow> at s' = None"
  proof (intro allI impI)
    fix pre' s'
    assume "ps @ s = pre' @ s' \<and> length pre' < length ps"
    then have "(p # ps) @ s = (p # pre') @ s' \<and> length (p # pre') < length (p # ps)" by simp
    with Cons.prems(2) show "at s' = None" by blast
  qed
  ultimately show ?case using Cons.IH [OF Cons.prems(1)] by simp
qed

lemma lower_markers:
  "map to_lower ''Verdict:'' = ''verdict:''"
  "map to_lower ''Safe'' = ''safe''"
  "map to_lower ''Phishing'' = ''phishing''"
  "map to_lower ''Reasoning:'' = ''reasoning:''"
  by (simp_all add: to_lower_def)

lemma starts_ci_markers:
  "starts_ci ''Verdict:'' s = (8 \<le> length s \<and> map to_lower (take 8 s) = ''verdict:'')"
  "starts_ci ''Safe'' s = (4 \<le> length s \<and> map to_lower (take 4 s) = ''safe'')"
  "starts_ci ''Phishing'' s = (8 \<le> length s \<and> map to_lower (take 8 s) = ''phishing'')"
  "starts_ci ''Reasoning:'' s = (10 \<le> length s \<and> map to_lower (take 10 s) = ''reasoning:'')"
proof -
  have l: "length ''Verdict:'' = 8" "length ''Safe'' = 4" "length ''Phishing'' = 8"
    "length ''Reasoning:'' = 10"
    by simp_all
  show "starts_ci ''Verdict:'' s = (8 \<le> length s \<and> map to_lower (take 8 s) = ''verdict:'')"
    unfolding starts_ci_def l lower_markers by (rule refl)
  show "starts_ci ''Safe'' s = (4 \<le> length s \<and> map to_lower (take 4 s) = ''safe'')"
    unfolding starts_ci_def l lower_markers by (rule refl)
  show "starts_ci ''Phishing'' s = (8 \<le> length s \<and> map to_lower (take 8 s) = ''phishing'')"
    unfolding starts_ci_def l lower_markers by (rule refl)
  show "starts_ci ''Reasoning:'' s
          = (10 \<le> length s \<and> map to_lower (take 10 s) = ''reasoning:'')"
    unfolding starts_ci_def l lower_markers by (rule refl)
qed

lemma space_is_no_letter:
  assumes "is_space c"
  shows "to_lower c \<noteq> CHR ''s'' \<and> to_lower c \<noteq> CHR ''p''"
proof -
  from assms have "c = CHR 0x09 \<or> c = CHR 0x0A \<or> c = CHR 0x0B \<or> c = CHR 0x0C
      \<or> c = CHR 0x0D \<or> c = CHR 0x20 \<or> c = CHR 0xA0"
    by (simp add: is_space_def)
  then show ?thesis
    by (elim disjE) (simp_all add: to_lower_def)
qed

lemma starts_ci_append:
  "map to_lower m = map to_lower pat \<Longrightarrow> starts_ci pat (m @ rest)"
proof -
  assume a: "map to_lower m = map to_lower pat"
  then have "length m = length pat" by (metis length_map)
  with a show ?thesis by (simp add: starts_ci_def)
qed

lemma dropWhile_spaces:
  assumes "list_all is_space ws" and "names_verdict v"
  shows "dropWhile is_space (ws @ v @ post) = v @ post"
proof -
  from assms(2) obtain c cs where v: "v = c # cs" and "to_lower c = CHR ''s'' \<or> to_lower c = CHR ''p''"
    by (auto simp add: names_verdict_def map_eq_Cons_conv)
  then have "\<not> is_space c" using space_is_no_letter by blast
  with assms(1) v show ?thesis
    by (simp add: dropWhile_append2 list_all_iff)
qed

lemma verdict_at_sound:
  assumes a: "verdict_at s = Some v"
  shows "\<exists>m ws post. s = m @ ws @ v @ post \<and> map to_lower m = ''verdict:''
        \<and> list_all is_space ws \<and> names_verdict v"
proof -
  let ?rest = "dropWhile is_space (drop 8 s)"
  from a have st: "starts_ci ''Verdict:'' s"
    by (simp add: verdict_at_def split: if_splits)
  then have m: "map to_lower (take 8 s) = ''verdict:''"
    by (simp only: starts_ci_markers)
  have e1: "take 8 s @ drop 8 s = s" by simp
  have e2: "takeWhile is_space (drop 8 s) @ ?rest = drop 8 s" by simp
  have ws: "list_all is_space (takeWhile is_space (drop 8 s))"
    unfolding list_all_iff by (blast dest: set_takeWhileD)
  from a st have c: "(starts_ci ''Safe'' ?rest \<and> v = take 4 ?rest)
      \<or> (starts_ci ''Phishing'' ?rest \<and> v = take 8 ?rest)"
    by (simp add: verdict_at_def Let_def split: if_splits)
  then show ?thesis
  proof
    assume safe: "starts_ci ''Safe'' ?rest \<and> v = take 4 ?rest"
    then have "map to_lower (take 4 ?rest) = ''safe''"
      by (simp only: starts_ci_markers)
    with safe have nv: "names_verdict v" by (simp add: names_verdict_def)
    from safe have e3: "v @ drop 4 ?rest = ?rest" by simp
    have d: "s = take 8 s @ takeWhile is_space (drop 8 s) @ v @ drop 4 ?rest"
      unfolding e3 e2 e1 by (rule refl)
    show ?thesis
      by (rule exI [where x = "take 8 s"], rule exI [where x = "takeWhile is_space (drop 8 s)"],
          rule exI [where x = "drop 4 ?rest"]) (intro conjI d m ws nv)
  next
    assume phishing: "starts_ci ''Phishing'' ?rest \<and> v = take 8 ?rest"
    then have "map to_lower (take 8 ?rest) = ''phishing''"
      by (simp only: starts_ci_markers)
    with phishing have nv: "names_verdict v" by (simp add: names_verdict_def)
    from phishing have e3: "v @ drop 8 ?rest = ?rest" by simp
    have d: "s = take 8 s @ takeWhile is_space (drop 8 s) @ v @ drop 8 ?rest"
      unfolding e3 e2 e1 by (rule refl)
    show ?thesis
      by (rule exI [where x = "take 8 s"], rule exI [where x = "takeWhile is_space (drop 8 s)"],
          rule exI [where x = "drop 8 ?rest"]) (intro conjI d m ws nv)
  qed
qed

lemma verdict_at_complete:
  assumes m: "map to_lower m = ''verdict:''" and ws: "list_all is_space ws"
    and v: "names_verdict v"
  shows "verdict_at (m @ ws @ v @ post) = Some v"
proof -
  from m have "length (map to_lower m) = length ''verdict:''" by simp
  then have lm: "length m = 8" by simp
  have st: "starts_ci ''Verdict:'' (m @ ws @ v @ post)"
    by (rule starts_ci_append) (simp only: m lower_markers)
  have rest: "dropWhile is_space (drop 8 (m @ ws @ v @ post)) = v @ post"
    using lm by (simp add: dropWhile_spaces [OF ws v])
  from v have "map to_lower v = ''safe'' \<or> map to_lower v = ''phishing''"
    by (simp add: names_verdict_def)
  then show ?thesis
  proof
    assume safe: "map to_lower v = ''safe''"
    then have "length (map to_lower v) = length ''safe''" by simp
    then have l: "length v = 4" by simp
    have "starts_ci ''Safe'' (v @ post)"
      by (rule starts_ci_append) (simp only: safe lower_markers)
    then show ?thesis using st rest l by (simp add: verdict_at_def)
  next
    assume phishing: "map to_lower v = ''phishing''"
    then have "length (map to_lower v) = length ''phishing''" by simp
    then have l: "length v = 8" by simp
    have p: "starts_ci ''Phishing'' (v @ post)"
      by (rule starts_ci_append) (simp only: phishing lower_markers)
    have n: "\<not> starts_ci ''Safe'' (v @ post)"
    proof
      assume "starts_ci ''Safe'' (v @ post)"
      then have "map to_lower (take 4 (v @ post)) = ''safe''"
        by (simp only: starts_ci_markers)
      with l have "take 4 (map to_lower v) = ''safe''" by (simp add: take_map)
      with phishing show False by simp
    qed
    show ?thesis using st rest l p n by (simp add: verdict_at_def)
  qed
qed

lemma reasoning_at_sound:
  assumes a: "reasoning_at s = Some r"
  shows "\<exists>m rest. s = m @ rest \<and> map to_lower m = ''reasoning:''
           \<and> r = dropWhile is_space rest"
proof -
  from a have st: "starts_ci ''Reasoning:'' s" and r: "r = dropWhile is_space (drop 10 s)"
    by (simp_all add: reasoning_at_def split: if_splits)
  from st have m: "map to_lower (take 10 s) = ''reasoning:''"
    by (simp only: starts_ci_markers)
  have d: "s = take 10 s @ drop 10 s" by simp
  show ?thesis
    by (rule exI [where x = "take 10 s"], rule exI [where x = "drop 10 s"])
       (intro conjI d m r)
qed

lemma reasoning_at_complete:
  assumes m: "map to_lower m = ''reasoning:''"
  shows "reasoning_at (m @ rest) = Some (dropWhile is_space rest)"
proof -
  from m have "length (map to_lower m) = length ''reasoning:''" by simp
  then have lm: "length m = 10" by simp
  have st: "starts_ci ''Reasoning:'' (m @ rest)"
    by (rule starts_ci_append) (simp only: m lower_markers)
  with lm show ?thesis by (simp add: reasoning_at_def)
qed

lemma verdict_after_marker_iff:
  "verdict_after_marker t pre v \<longleftrightarrow> (\<exists>s. t = pre @ s \<and> verdict_at s = Some v)"
proof
  assume "verdict_after_marker t pre v"
  then obtain m ws post where t: "t = pre @ m @ ws @ v @ post"
    and m: "map to_lower m = ''verdict:''" and ws: "list_all is_space ws"
    and v: "names_verdict v"
    unfolding verdict_after_marker_def by (elim exE conjE)
  from verdict_at_complete [OF m ws v] t
  show "\<exists>s. t = pre @ s \<and> verdict_at s = Some v" by (intro exI conjI)
next
  assume "\<exists>s. t = pre @ s \<and> verdict_at s = Some v"
  then obtain s where t: "t = pre @ s" and a: "verdict_at s = Some v" by (elim exE conjE)
  from verdict_at_sound [OF a] obtain m ws post where s: "s = m @ ws @ v @ post"
    and m: "map to_lower m = ''verdict:''" and ws: "list_all is_space ws"
    and v: "names_verdict v"
    by (elim exE conjE)
  have t': "t = pre @ m @ ws @ v @ post" unfolding t s by (rule refl)
  show "verdict_after_marker t pre v"
    unfolding verdict_after_marker_def
    by (rule exI [where x = m], rule exI [where x = ws], rule exI [where x = post])
       (intro conjI t' m ws v)
qed

lemma reasoning_after_marker_iff:
  "reasoning_after_marker t pre rest \<longleftrightarrow>
     (\<exists>s. t = pre @ s \<and> length s = 10 + length rest
          \<and> reasoning_at s = Some (dropWhile is_space rest) \<and> drop 10 s = rest)"
proof
  assume "reasoning_after_marker t pre rest"
  then obtain m where t: "t = pre @ m @ rest" and m: "map to_lower m = ''reasoning:''"
    unfolding reasoning_after_marker_def by (elim exE conjE)
  from m have "length (map to_lower m) = length ''reasoning:''" by simp
  then have lm: "length m = 10" by simp
  from reasoning_at_complete [OF m, of rest] t lm
  show "\<exists>s. t = pre @ s \<and> length s = 10 + length rest
          \<and> reasoning_at s = Some (dropWhile is_space rest) \<and> drop 10 s = rest"
    by (intro exI [where x = "m @ rest"]) simp
next
  assume "\<exists>s. t = pre @ s \<and> length s = 10 + length rest
          \<and> reasoning_at s = Some (dropWhile is_space rest) \<and> drop 10 s = rest"
  then obtain s where t: "t = pre @ s" and a: "reasoning_at s = Some (dropWhile is_space rest)"
    and d: "drop 10 s = rest"
    by (elim exE conjE)
  from a have "starts_ci ''Reasoning:'' s" by (simp add: reasoning_at_def split: if_splits)
  then have m: "map to_lower (take 10 s) = ''reasoning:''" by (simp only: starts_ci_markers)
  have "s = take 10 s @ rest" unfolding d [symmetric] by simp
  then have t': "t = pre @ take 10 s @ rest" unfolding t by simp
  show "reasoning_after_marker t pre rest"
    unfolding reasoning_after_marker_def
    by (rule exI [where x = "take 10 s"]) (intro conjI t' m)
qed

text \<open>
  What \<^verbatim>\<open>formatResult\<close> returns for a text that is not an error, and how the leftmost
  marker of the specification is the match the expression finds.
\<close>

lemma formatResult_parsed:
  assumes "\<not> prefix ''Error:'' t"
  shows "formatResult t =
     VerdictBlock
       (case first_match verdict_at t of None \<Rightarrow> [] | Some v \<Rightarrow> verdict_class v)
       (case first_match verdict_at t of None \<Rightarrow> ''Unknown'' | Some v \<Rightarrow> v)
       (case first_match reasoning_at t of None \<Rightarrow> t | Some r \<Rightarrow> trim r)"
  using assms by (simp add: formatResult_def Let_def split: option.split)

lemma verdict_class_names:
  assumes "names_verdict v"
  shows "verdict_class v
           = (if map to_lower v = ''safe'' then ''verdict-safe'' else ''verdict-phishing'')"
proof -
  from assms have "map to_lower v = ''safe'' \<or> map to_lower v = ''phishing''"
    by (simp add: names_verdict_def)
  then show ?thesis
    by (elim disjE) (simp_all add: verdict_class_def)
qed

lemma trim_dropWhile: "trim (dropWhile is_space rest) = trim rest"
  by (simp add: trim_def)

lemma leftmost_verdict:
  assumes "verdict_after_marker t pre v"
    and "\<forall>pre' v'. verdict_after_marker t pre' v' \<longrightarrow> length pre \<le> length pre'"
  shows "first_match verdict_at t = Some v"
proof -
  from assms(1) obtain s where t: "t = pre @ s" and a: "verdict_at s = Some v"
    unfolding verdict_after_marker_iff by (elim exE conjE)
  have "\<forall>pre' s'. pre @ s = pre' @ s' \<and> length pre' < length pre \<longrightarrow> verdict_at s' = None"
  proof (intro allI impI)
    fix pre' s'
    assume h: "pre @ s = pre' @ s' \<and> length pre' < length pre"
    show "verdict_at s' = None"
    proof (cases "verdict_at s'")
      case None
      then show ?thesis .
    next
      case (Some v')
      with h t have "verdict_after_marker t pre' v'"
        unfolding verdict_after_marker_iff by auto
      with assms(2) h show ?thesis by auto
    qed
  qed
  from first_match_Some [OF a this] t show ?thesis by simp
qed

lemma no_verdict:
  "(\<forall>pre v. \<not> verdict_after_marker t pre v) \<longleftrightarrow> first_match verdict_at t = None"
  unfolding first_match_None verdict_after_marker_iff
  by (metis not_Some_eq option.distinct(1))

lemma leftmost_reasoning:
  assumes "reasoning_after_marker t pre rest"
    and "\<forall>pre' rest'. reasoning_after_marker t pre' rest' \<longrightarrow> length pre \<le> length pre'"
  shows "first_match reasoning_at t = Some (dropWhile is_space rest)"
proof -
  from assms(1) obtain s where t: "t = pre @ s"
    and a: "reasoning_at s = Some (dropWhile is_space rest)"
    unfolding reasoning_after_marker_iff by (elim exE conjE)
  have "\<forall>pre' s'. pre @ s = pre' @ s' \<and> length pre' < length pre \<longrightarrow> reasoning_at s' = None"
  proof (intro allI impI)
    fix pre' s'
    assume h: "pre @ s = pre' @ s' \<and> length pre' < length pre"
    show "reasoning_at s' = None"
    proof (cases "reasoning_at s'")
      case None
      then show ?thesis .
    next
      case (Some r)
      from reasoning_at_sound [OF Some] obtain m rest' where "s' = m @ rest'"
        and "map to_lower m = ''reasoning:''"
        by (elim exE conjE)
      with h t have "reasoning_after_marker t pre' rest'"
        unfolding reasoning_after_marker_def by auto
      with assms(2) h show ?thesis by auto
    qed
  qed
  from first_match_Some [OF a this] t show ?thesis by simp
qed

lemma no_reasoning:
  "(\<forall>pre rest. \<not> reasoning_after_marker t pre rest) \<longleftrightarrow> first_match reasoning_at t = None"
proof
  assume n: "\<forall>pre rest. \<not> reasoning_after_marker t pre rest"
  show "first_match reasoning_at t = None"
    unfolding first_match_None
  proof (intro allI impI)
    fix pre s
    assume t: "t = pre @ s"
    show "reasoning_at s = None"
    proof (cases "reasoning_at s")
      case None
      then show ?thesis .
    next
      case (Some r)
      from reasoning_at_sound [OF Some] obtain m rest where "s = m @ rest"
        and "map to_lower m = ''reasoning:''"
        by (elim exE conjE)
      with t have "reasoning_after_marker t pre rest"
        unfolding reasoning_after_marker_def by auto
      with n show ?thesis by blast
    qed
  qed
next
  assume n: "first_match reasoning_at t = None"
  show "\<forall>pre rest. \<not> reasoning_after_marker t pre rest"
  proof (intro allI notI)
    fix pre rest
    assume "reasoning_after_marker t pre rest"
    then obtain s where "t = pre @ s" and "reasoning_at s = Some (dropWhile is_space rest)"
      unfolding reasoning_after_marker_iff by (elim exE conjE)
    with n show False unfolding first_match_None by auto
  qed
qed

text \<open>
  A check that runs: when the expression fails at every start before \<open>n\<close>, a marker
  starts at \<open>n\<close> or later.
\<close>

lemma verdict_leftmost_check:
  assumes "list_all (\<lambda>k. verdict_at (drop k raw) = None) [0..<n]"
  shows "\<forall>pre' v'. verdict_after_marker raw pre' v' \<longrightarrow> n \<le> length pre'"
proof (intro allI impI)
  fix pre' v'
  assume "verdict_after_marker raw pre' v'"
  then obtain s where r: "raw = pre' @ s" and a: "verdict_at s = Some v'"
    unfolding verdict_after_marker_iff by (elim exE conjE)
  show "n \<le> length pre'"
  proof (rule ccontr)
    assume "\<not> n \<le> length pre'"
    with assms have "verdict_at (drop (length pre') raw) = None"
      by (simp add: list_all_iff)
    with r a show False by simp
  qed
qed

lemma reasoning_leftmost_check:
  assumes "list_all (\<lambda>k. reasoning_at (drop k raw) = None) [0..<n]"
  shows "\<forall>pre' rest'. reasoning_after_marker raw pre' rest' \<longrightarrow> n \<le> length pre'"
proof (intro allI impI)
  fix pre' rest'
  assume "reasoning_after_marker raw pre' rest'"
  then obtain s where r: "raw = pre' @ s"
    and a: "reasoning_at s = Some (dropWhile is_space rest')"
    unfolding reasoning_after_marker_iff by (elim exE conjE)
  show "n \<le> length pre'"
  proof (rule ccontr)
    assume "\<not> n \<le> length pre'"
    with assms have "reasoning_at (drop (length pre') raw) = None"
      by (simp add: list_all_iff)
    with r a show False by simp
  qed
qed

text \<open>The three replies, run.\<close>

lemma spec_reply_facts:
  "\<not> prefix ''Error:'' spec_reply"
  "verdict_after_marker spec_reply [] ''Safe''"
  "reasoning_after_marker spec_reply (''Verdict: Safe'' @ [CHR 0x0A]) '' X''"
  "list_all (\<lambda>k. reasoning_at (drop k spec_reply) = None) [0..<14]"
proof -
  show "\<not> prefix ''Error:'' spec_reply" by (simp add: spec_reply_def)
  have "verdict_at spec_reply = Some ''Safe''" by code_simp
  then show "verdict_after_marker spec_reply [] ''Safe''"
    unfolding verdict_after_marker_iff by simp
  have "map to_lower ''Reasoning:'' = ''reasoning:''" by (rule lower_markers)
  then show "reasoning_after_marker spec_reply (''Verdict: Safe'' @ [CHR 0x0A]) '' X''"
    unfolding reasoning_after_marker_def
    by (intro exI [where x = "''Reasoning:''"]) (simp add: spec_reply_def)
  show "list_all (\<lambda>k. reasoning_at (drop k spec_reply) = None) [0..<14]" by code_simp
qed

lemma loose_reply_facts:
  "\<not> prefix ''Error:'' loose_reply"
  "verdict_after_marker loose_reply ''  so the '' ''phishING''"
  "list_all (\<lambda>k. verdict_at (drop k loose_reply) = None) [0..<9]"
  "reasoning_after_marker loose_reply
     (''  so the VERDICT:'' @ [CHR 0x09] @ ''phishING, '') ''  bad form  ''"
  "list_all (\<lambda>k. reasoning_at (drop k loose_reply) = None) [0..<28]"
proof -
  show "\<not> prefix ''Error:'' loose_reply" by (simp add: loose_reply_def)
  have "verdict_at (drop 9 loose_reply) = Some ''phishING''" by code_simp
  moreover have "loose_reply = ''  so the '' @ drop 9 loose_reply"
    by (simp add: loose_reply_def)
  ultimately show "verdict_after_marker loose_reply ''  so the '' ''phishING''"
    unfolding verdict_after_marker_iff by blast
  show "list_all (\<lambda>k. verdict_at (drop k loose_reply) = None) [0..<9]" by code_simp
  have "map to_lower ''reasoning:'' = ''reasoning:''" by (simp add: to_lower_def)
  then show "reasoning_after_marker loose_reply
     (''  so the VERDICT:'' @ [CHR 0x09] @ ''phishING, '') ''  bad form  ''"
    unfolding reasoning_after_marker_def
    by (intro exI [where x = "''reasoning:''"]) (simp add: loose_reply_def)
  show "list_all (\<lambda>k. reasoning_at (drop k loose_reply) = None) [0..<28]" by code_simp
qed

lemma vague_reply_facts:
  "\<not> prefix ''Error:'' vague_reply"
  "first_match verdict_at vague_reply = None"
  "first_match reasoning_at vague_reply = None"
proof -
  show "\<not> prefix ''Error:'' vague_reply" by (simp add: vague_reply_def)
  show "first_match verdict_at vague_reply = None" by code_simp
  show "first_match reasoning_at vague_reply = None" by code_simp
qed

lemma trim_examples:
  "trim '' X'' = ''X''" "trim ''  bad form  '' = ''bad form''"
  by (simp_all add: trim_def is_space_def)

section \<open>Parsing a reply\<close>

text \<open>
  C7, as the specification states it, fails: not every text that holds \<^verbatim>\<open>Verdict:\<close>
  followed by \<^verbatim>\<open>Safe\<close> yields that verdict. A text that starts with \<^verbatim>\<open>Error:\<close> is not
  parsed at all; \<^verbatim>\<open>formatResult\<close> returns the red error paragraph, which has no verdict.
\<close>

theorem error_prefix_counterexample:
  "''Error: Verdict: Safe'' = ''Error: '' @ ''Verdict:'' @ '' '' @ ''Safe'' @ []
   \<and> verdict_after_marker ''Error: Verdict: Safe'' ''Error: '' ''Safe''
   \<and> formatResult ''Error: Verdict: Safe'' = ErrorParagraph ''Error: Verdict: Safe''"
proof -
  have "verdict_at ''Verdict: Safe'' = Some ''Safe''" by code_simp
  then have "verdict_after_marker ''Error: Verdict: Safe'' ''Error: '' ''Safe''"
    unfolding verdict_after_marker_iff by simp
  moreover have "formatResult ''Error: Verdict: Safe'' = ErrorParagraph ''Error: Verdict: Safe''"
    by (simp add: formatResult_def)
  ultimately show ?thesis by simp
qed

text \<open>
  C7, amended. A text that starts with \<^verbatim>\<open>Error:\<close> is rendered as an error and not
  parsed. For every other text, parsing ignores case and position: the leftmost place
  where \<^verbatim>\<open>Verdict:\<close> (in any casing) is followed, after whitespace or none, by
  \<^verbatim>\<open>Safe\<close> or \<^verbatim>\<open>Phishing\<close> (in any casing) gives the verdict, as it is written in the
  text, with the class of the verdict it names; when there is no such place the verdict
  is \<^verbatim>\<open>Unknown\<close>, with no class, and the result is still a verdict block, not an error.
  The text after the leftmost \<^verbatim>\<open>Reasoning:\<close> (in any casing), trimmed, is the reasoning;
  when there is no such marker the reasoning is the whole text.
\<close>

theorem formatResult_reads_markers:
  "(prefix ''Error:'' raw \<longrightarrow> formatResult raw = ErrorParagraph raw)
   \<and> (\<not> prefix ''Error:'' raw \<longrightarrow>
        (verdict_after_marker raw pre v
           \<and> (\<forall>pre' v'. verdict_after_marker raw pre' v' \<longrightarrow> length pre \<le> length pre')
         \<longrightarrow> (\<exists>reasoning. formatResult raw
                = VerdictBlock (if map to_lower v = ''safe'' then ''verdict-safe''
                                else ''verdict-phishing'') v reasoning))
      \<and> ((\<forall>pre' v'. \<not> verdict_after_marker raw pre' v')
         \<longrightarrow> (\<exists>reasoning. formatResult raw = VerdictBlock [] ''Unknown'' reasoning))
      \<and> (reasoning_after_marker raw pre_r rest
           \<and> (\<forall>pre' rest'. reasoning_after_marker raw pre' rest'
                 \<longrightarrow> length pre_r \<le> length pre')
         \<longrightarrow> (\<exists>verdictClass verdict.
                formatResult raw = VerdictBlock verdictClass verdict (trim rest)))
      \<and> ((\<forall>pre' rest'. \<not> reasoning_after_marker raw pre' rest')
         \<longrightarrow> (\<exists>verdictClass verdict.
                formatResult raw = VerdictBlock verdictClass verdict raw)))"
proof (intro conjI impI)
  assume "prefix ''Error:'' raw"
  then show "formatResult raw = ErrorParagraph raw" by (simp add: formatResult_def)
next
  assume e: "\<not> prefix ''Error:'' raw"
    and h: "verdict_after_marker raw pre v
           \<and> (\<forall>pre' v'. verdict_after_marker raw pre' v' \<longrightarrow> length pre \<le> length pre')"
  from h have m: "first_match verdict_at raw = Some v"
    by (intro leftmost_verdict [where pre = pre]) (elim conjE, assumption)+
  from h have "names_verdict v" unfolding verdict_after_marker_def by (elim conjE exE)
  then show "\<exists>reasoning. formatResult raw
                = VerdictBlock (if map to_lower v = ''safe'' then ''verdict-safe''
                                else ''verdict-phishing'') v reasoning"
    by (simp add: formatResult_parsed [OF e] m verdict_class_names)
next
  assume e: "\<not> prefix ''Error:'' raw" and "\<forall>pre' v'. \<not> verdict_after_marker raw pre' v'"
  then have "first_match verdict_at raw = None" by (simp only: no_verdict)
  then show "\<exists>reasoning. formatResult raw = VerdictBlock [] ''Unknown'' reasoning"
    by (simp add: formatResult_parsed [OF e])
next
  assume e: "\<not> prefix ''Error:'' raw"
    and h: "reasoning_after_marker raw pre_r rest
           \<and> (\<forall>pre' rest'. reasoning_after_marker raw pre' rest'
                 \<longrightarrow> length pre_r \<le> length pre')"
  from h have "first_match reasoning_at raw = Some (dropWhile is_space rest)"
    by (intro leftmost_reasoning [where pre = pre_r]) (elim conjE, assumption)+
  then show "\<exists>verdictClass verdict.
                formatResult raw = VerdictBlock verdictClass verdict (trim rest)"
    by (simp add: formatResult_parsed [OF e] trim_dropWhile)
next
  assume e: "\<not> prefix ''Error:'' raw"
    and "\<forall>pre' rest'. \<not> reasoning_after_marker raw pre' rest'"
  then have "first_match reasoning_at raw = None" by (simp only: no_reasoning)
  then show "\<exists>verdictClass verdict. formatResult raw = VerdictBlock verdictClass verdict raw"
    by (simp add: formatResult_parsed [OF e])
qed

text \<open>
  The reply of the specification gives Safe and \<^verbatim>\<open>X\<close>; the markers are found in other
  casings inside a sentence; a reply with no marker is Unknown with the text as its
  reasoning; the string of an adapter that is not configured is an error.
\<close>

theorem formatResult_reads_markers_witness:
  "verdict_after_marker spec_reply [] ''Safe''
   \<and> reasoning_after_marker spec_reply (''Verdict: Safe'' @ [CHR 0x0A]) '' X''
   \<and> formatResult spec_reply = VerdictBlock ''verdict-safe'' ''Safe'' ''X''
   \<and> verdict_after_marker loose_reply ''  so the '' ''phishING''
   \<and> formatResult loose_reply = VerdictBlock ''verdict-phishing'' ''phishING'' ''bad form''
   \<and> formatResult vague_reply = VerdictBlock [] ''Unknown'' vague_reply
   \<and> formatResult ''Error: OpenAI client is not configured or API key is missing.''
       = ErrorParagraph ''Error: OpenAI client is not configured or API key is missing.''"
proof -
  note s = formatResult_reads_markers [where raw = spec_reply and pre = "[]" and v = "''Safe''"
      and pre_r = "''Verdict: Safe'' @ [CHR 0x0A]" and rest = "'' X''",
      THEN conjunct2, THEN mp, OF spec_reply_facts(1)]
  have sl: "\<forall>pre' rest'. reasoning_after_marker spec_reply pre' rest'
              \<longrightarrow> length (''Verdict: Safe'' @ [CHR 0x0A]) \<le> length pre'"
  proof -
    have n: "length (''Verdict: Safe'' @ [CHR 0x0A]) = 14" by simp
    show ?thesis unfolding n by (rule reasoning_leftmost_check [OF spec_reply_facts(4)])
  qed
  from s [THEN conjunct1] spec_reply_facts(2)
  obtain r where s1: "formatResult spec_reply = VerdictBlock ''verdict-safe'' ''Safe'' r"
    by (auto simp add: to_lower_def)
  from s [THEN conjunct2, THEN conjunct2, THEN conjunct1] spec_reply_facts(3) sl
  obtain c v where s2: "formatResult spec_reply = VerdictBlock c v (trim '' X'')"
    by blast
  from s2 have s3: "formatResult spec_reply = VerdictBlock c v ''X''"
    unfolding trim_examples .
  from s1 s3 have "r = ''X''" by simp
  with s1 have a: "formatResult spec_reply = VerdictBlock ''verdict-safe'' ''Safe'' ''X''"
    by simp
  note l = formatResult_reads_markers [where raw = loose_reply and pre = "''  so the ''"
      and v = "''phishING''"
      and pre_r = "''  so the VERDICT:'' @ [CHR 0x09] @ ''phishING, ''"
      and rest = "''  bad form  ''",
      THEN conjunct2, THEN mp, OF loose_reply_facts(1)]
  have lv: "\<forall>pre' v'. verdict_after_marker loose_reply pre' v'
              \<longrightarrow> length ''  so the '' \<le> length pre'"
  proof -
    have n: "length ''  so the '' = 9" by simp
    show ?thesis unfolding n by (rule verdict_leftmost_check [OF loose_reply_facts(3)])
  qed
  have lr: "\<forall>pre' rest'. reasoning_after_marker loose_reply pre' rest'
              \<longrightarrow> length (''  so the VERDICT:'' @ [CHR 0x09] @ ''phishING, '') \<le> length pre'"
  proof -
    have n: "length (''  so the VERDICT:'' @ [CHR 0x09] @ ''phishING, '') = 28" by simp
    show ?thesis unfolding n by (rule reasoning_leftmost_check [OF loose_reply_facts(5)])
  qed
  from l [THEN conjunct1] loose_reply_facts(2) lv
  obtain r where l1: "formatResult loose_reply = VerdictBlock ''verdict-phishing'' ''phishING'' r"
    by (auto simp add: to_lower_def)
  from l [THEN conjunct2, THEN conjunct2, THEN conjunct1] loose_reply_facts(4) lr
  obtain c v where l2: "formatResult loose_reply = VerdictBlock c v (trim ''  bad form  '')"
    by blast
  from l2 have l3: "formatResult loose_reply = VerdictBlock c v ''bad form''"
    unfolding trim_examples .
  from l1 l3 have "r = ''bad form''" by simp
  with l1 have b: "formatResult loose_reply
      = VerdictBlock ''verdict-phishing'' ''phishING'' ''bad form''"
    by simp
  note g = formatResult_reads_markers [where raw = vague_reply,
      THEN conjunct2, THEN mp, OF vague_reply_facts(1)]
  from g [THEN conjunct2, THEN conjunct1] vague_reply_facts(2)
  obtain r where g1: "formatResult vague_reply = VerdictBlock [] ''Unknown'' r"
    unfolding no_verdict by blast
  from g [THEN conjunct2, THEN conjunct2, THEN conjunct2] vague_reply_facts(3)
  obtain c v where g2: "formatResult vague_reply = VerdictBlock c v vague_reply"
    unfolding no_reasoning by blast
  from g1 g2 have "r = vague_reply" by simp
  with g1 have c: "formatResult vague_reply = VerdictBlock [] ''Unknown'' vague_reply"
    by simp
  have d: "formatResult ''Error: OpenAI client is not configured or API key is missing.''
       = ErrorParagraph ''Error: OpenAI client is not configured or API key is missing.''"
    using formatResult_reads_markers
      [where raw = "''Error: OpenAI client is not configured or API key is missing.''",
        THEN conjunct1]
    by simp
  from a b c d spec_reply_facts(2,3) loose_reply_facts(2) show ?thesis by simp
qed

end
